theory Spec2Isabelle
  imports Main
begin

section \<open>The rule no-useless-else: syntax tree, tokens and results\<close>

text \<open>
  The rule of \<^verbatim>\<open>lib/rules/no-useless-else.js\<close> reads a syntax tree and a token stream
  and reports the \<^verbatim>\<open>else\<close> keyword of every chain of conditionals whose branches all
  leave by a jump. The tree is a tagged union: the four jump statements of
  \<^verbatim>\<open>CONTROL_FLOW_TYPES\<close>, the block, the conditional, and one constructor for every
  other kind of node (program, function, loop, expression statement, expression, ...)
  with its children in traversal order. Every node carries its \<^verbatim>\<open>start\<close> and
  \<^verbatim>\<open>end\<close> offsets. The \<^verbatim>\<open>alternate\<close> of a conditional is \<^verbatim>\<open>null\<close> when there is no
  \<^verbatim>\<open>else\<close>: an option.
\<close>

datatype node =
    ReturnStatement nat nat "node list"
  | ThrowStatement nat nat "node list"
  | BreakStatement nat nat
  | ContinueStatement nat nat
  | BlockStatement nat nat "node list"
  | IfStatement nat nat node node "node option"
  | OtherNode nat nat "node list"

fun node_start :: "node \<Rightarrow> nat" where
  "node_start (ReturnStatement s e cs) = s"
| "node_start (ThrowStatement s e cs) = s"
| "node_start (BreakStatement s e) = s"
| "node_start (ContinueStatement s e) = s"
| "node_start (BlockStatement s e body) = s"
| "node_start (IfStatement s e t c a) = s"
| "node_start (OtherNode s e cs) = s"

fun node_end :: "node \<Rightarrow> nat" where
  "node_end (ReturnStatement s e cs) = e"
| "node_end (ThrowStatement s e cs) = e"
| "node_end (BreakStatement s e) = e"
| "node_end (ContinueStatement s e) = e"
| "node_end (BlockStatement s e body) = e"
| "node_end (IfStatement s e t c a) = e"
| "node_end (OtherNode s e cs) = e"

text \<open>
  Property reads. In the source a property that a node does not have reads as
  \<^verbatim>\<open>undefined\<close>, and a missing \<^verbatim>\<open>else\<close> as \<^verbatim>\<open>null\<close>; both are \<open>None\<close> here.
\<close>

fun consequent :: "node \<Rightarrow> node option" where
  "consequent (IfStatement s e t c a) = Some c"
| "consequent n = None"

fun alternate :: "node \<Rightarrow> node option" where
  "alternate (IfStatement s e t c a) = a"
| "alternate n = None"

fun isIfStatement :: "node \<Rightarrow> bool" where
  "isIfStatement (IfStatement s e t c a) = True"
| "isIfStatement n = False"

fun isBlockStatement :: "node \<Rightarrow> bool" where
  "isBlockStatement (BlockStatement s e body) = True"
| "isBlockStatement n = False"

text \<open>
  Reading a property of \<^verbatim>\<open>undefined\<close> or \<^verbatim>\<open>null\<close> raises a \<^verbatim>\<open>TypeError\<close>. Every
  function of the rule that reads a property of a value that may be missing returns
  \<open>error + 'a\<close>, so that each such read is a branch of the model. A boolean result is
  the truthiness of the value the source returns (\<^verbatim>\<open>undefined\<close> and \<^verbatim>\<open>null\<close> are
  falsy), which is all that \<^verbatim>\<open>&&\<close>, \<^verbatim>\<open>||\<close>, \<^verbatim>\<open>some\<close> and \<^verbatim>\<open>every\<close> look at.
\<close>

datatype error = TypeError

definition deref :: "'a option \<Rightarrow> error + 'a" where
  "deref x = (case x of None \<Rightarrow> Inl TypeError | Some v \<Rightarrow> Inr v)"

definition bindE :: "error + 'a \<Rightarrow> ('a \<Rightarrow> error + 'b) \<Rightarrow> error + 'b" where
  "bindE m f = (case m of Inl e \<Rightarrow> Inl e | Inr v \<Rightarrow> f v)"

definition andE :: "error + bool \<Rightarrow> error + bool \<Rightarrow> error + bool" where
  \<comment> \<open>\<^verbatim>\<open>a && b\<close>: \<open>b\<close> is evaluated only when \<open>a\<close> is truthy\<close>
  "andE a b = bindE a (\<lambda>x. if x then b else Inr False)"

definition orE :: "error + bool \<Rightarrow> error + bool \<Rightarrow> error + bool" where
  \<comment> \<open>\<^verbatim>\<open>a || b\<close>: \<open>b\<close> is evaluated only when \<open>a\<close> is falsy\<close>
  "orE a b = bindE a (\<lambda>x. if x then Inr True else b)"

fun array_some :: "('a option \<Rightarrow> error + bool) \<Rightarrow> 'a list \<Rightarrow> error + bool" where
  "array_some f [] = Inr False"
| "array_some f (x # xs) = bindE (f (Some x)) (\<lambda>b. if b then Inr True else array_some f xs)"

fun array_every :: "('a option \<Rightarrow> error + bool) \<Rightarrow> 'a list \<Rightarrow> error + bool" where
  "array_every f [] = Inr True"
| "array_every f (x # xs) = bindE (f (Some x)) (\<lambda>b. if b then array_every f xs else Inr False)"

definition array_index :: "'a list \<Rightarrow> int \<Rightarrow> 'a option" where
  \<comment> \<open>\<^verbatim>\<open>xs[i]\<close>: \<^verbatim>\<open>undefined\<close> outside the array, also at index -1\<close>
  "array_index xs i = (if 0 \<le> i \<and> i < int (length xs) then Some (xs ! nat i) else None)"

section \<open>The control-flow classifier\<close>

fun isControlFlowType :: "node \<Rightarrow> bool" where
  \<comment> \<open>\<^verbatim>\<open>CONTROL_FLOW_TYPES.has(node.type)\<close>\<close>
  "isControlFlowType (ReturnStatement s e cs) = True"
| "isControlFlowType (ThrowStatement s e cs) = True"
| "isControlFlowType (BreakStatement s e) = True"
| "isControlFlowType (ContinueStatement s e) = True"
| "isControlFlowType n = False"

definition checkForControlJump :: "node option \<Rightarrow> error + bool" where
  "checkForControlJump node = bindE (deref node) (\<lambda>n. Inr (isControlFlowType n))"

definition naiveHasControlJump :: "node option \<Rightarrow> error + bool" where
  "naiveHasControlJump node = bindE (deref node) (\<lambda>n.
     case n of
       BlockStatement s e body \<Rightarrow>
         (let lastChildNode = array_index body (int (length body) - 1)
          in andE (Inr (lastChildNode \<noteq> None)) (checkForControlJump lastChildNode))
     | _ \<Rightarrow> checkForControlJump node)"

definition hasElse :: "node option \<Rightarrow> error + bool" where
  "hasElse node = bindE (deref node) (\<lambda>n.
     andE (Inr (alternate n \<noteq> None))
       (andE (Inr (consequent n \<noteq> None))
          (bindE (deref (alternate n)) (\<lambda>a. Inr (\<not> isIfStatement a)))))"

definition checkForIf :: "node option \<Rightarrow> error + bool" where
  "checkForIf node = bindE (deref node) (\<lambda>n.
     andE (Inr (isIfStatement n))
       (andE (hasElse node)
          (andE (naiveHasControlJump (alternate n)) (naiveHasControlJump (consequent n)))))"

definition checkForControlJumpOrIf :: "node option \<Rightarrow> error + bool" where
  "checkForControlJumpOrIf node = orE (checkForControlJump node) (checkForIf node)"

definition alwaysHasControlFlow :: "node option \<Rightarrow> error + bool" where
  "alwaysHasControlFlow node = bindE (deref node) (\<lambda>n.
     case n of
       BlockStatement s e body \<Rightarrow> array_some checkForControlJumpOrIf body
     | _ \<Rightarrow> checkForControlJumpOrIf node)"

section \<open>Tokens, the source-code object and the reporter\<close>

text \<open>
  A token has a type tag, a value, its offsets and the line it starts on
  (\<^verbatim>\<open>loc.start.line\<close>). The rule reaches the token stream only through the methods of
  the \<^verbatim>\<open>sourceCode\<close> object, which is a parameter of the model: a record of the five
  methods the rule calls. Each token query answers \<^verbatim>\<open>null\<close> when there is no such
  token.
\<close>

record token =
  tok_type :: string
  tok_value :: string
  tok_start :: nat
  tok_end :: nat
  tok_line :: nat

definition Token :: "string \<Rightarrow> string \<Rightarrow> nat \<Rightarrow> nat \<Rightarrow> nat \<Rightarrow> token" where
  "Token ty v s e l = \<lparr>tok_type = ty, tok_value = v, tok_start = s, tok_end = e, tok_line = l\<rparr>"

record sourceCode =
  getFirstToken :: "node \<Rightarrow> token option"
  getLastToken :: "node \<Rightarrow> token option"
  getTokenBefore :: "token \<Rightarrow> token option"
  getTokenAfter :: "token \<Rightarrow> token option"
  getText :: "node \<Rightarrow> string"

text \<open>
  A fix is the text-range replacement of \<^verbatim>\<open>fixer.replaceTextRange([start, end], text)\<close>;
  the fix function answers \<^verbatim>\<open>null\<close> (\<open>None\<close>) to withhold it. A diagnostic is what
  \<^verbatim>\<open>context.report\<close> receives: the token it is anchored at, the message, the fix.
\<close>

record replacement =
  r_start :: nat
  r_end :: nat
  r_text :: string

record diagnostic =
  d_node :: token
  d_message :: string
  d_fix :: "replacement option"

definition unsafeStart :: "string \<Rightarrow> bool" where
  \<comment> \<open>the regular expression \<^verbatim>\<open>/^[([/+`-]/\<close>: the value begins with one of six characters\<close>
  "unsafeStart v = (case v of [] \<Rightarrow> False
     | c # cs \<Rightarrow> c \<in> {CHR ''('', CHR ''['', CHR ''/'', CHR ''+'', CHR 0x60, CHR ''-''})"

definition isOpeningBrace :: "token \<Rightarrow> bool" where
  "isOpeningBrace t = (tok_type t = ''Punctuator'' \<and> tok_value t = ''{'')"

definition slice_1_m1 :: "string \<Rightarrow> string" where
  \<comment> \<open>\<^verbatim>\<open>source.slice(1, -1)\<close>: without the first and the last character\<close>
  "slice_1_m1 source = take (length source - 2) (drop 1 source)"

definition tailUnsafe :: "sourceCode \<Rightarrow> token \<Rightarrow> token \<Rightarrow> bool" where
  \<comment> \<open>the test on \<^verbatim>\<open>nextToken\<close>, made when the last token of the else block is no semicolon\<close>
  "tailUnsafe sc endToken lastTokenOfElseBlock =
     (let nextToken = getTokenAfter sc endToken;
          nextTokenUnsafe = (case nextToken of None \<Rightarrow> False
                             | Some nt \<Rightarrow> unsafeStart (tok_value nt));
          nextTokenOnSameLine = (case nextToken of None \<Rightarrow> False
                             | Some nt \<Rightarrow> tok_line nt = tok_line lastTokenOfElseBlock)
      in nextTokenUnsafe \<or>
         (nextTokenOnSameLine \<and> (case nextToken of None \<Rightarrow> False
                                   | Some nt \<Rightarrow> tok_value nt \<noteq> ''}'')))"

definition computeFix ::
  "sourceCode \<Rightarrow> node \<Rightarrow> node \<Rightarrow> token \<Rightarrow> token \<Rightarrow> error + replacement option" where
  \<comment> \<open>the function passed as \<^verbatim>\<open>fix\<close>; \<open>parent\<close> is \<^verbatim>\<open>node.parent\<close>\<close>
  "computeFix sc node parent startToken elseToken =
     (let source = getText sc node;
          lastIfToken = getTokenBefore sc elseToken;
          firstTokenOfElseBlock =
            (if isOpeningBrace startToken then getTokenAfter sc startToken else Some startToken)
      in
      bindE (bindE (deref (consequent parent)) (\<lambda>c.
               andE (Inr (\<not> isBlockStatement c))
                    (bindE (deref lastIfToken) (\<lambda>t. Inr (tok_value t \<noteq> '';'')))))
        (\<lambda>ifBlockMaybeUnsafe.
      bindE (bindE (deref firstTokenOfElseBlock) (\<lambda>t. Inr (unsafeStart (tok_value t))))
        (\<lambda>elseBlockUnsafe.
      if ifBlockMaybeUnsafe \<and> elseBlockUnsafe then Inr None
      else
      bindE (deref (getLastToken sc node)) (\<lambda>endToken.
      bindE (deref (getTokenBefore sc endToken)) (\<lambda>lastTokenOfElseBlock.
      if tok_value lastTokenOfElseBlock \<noteq> '';'' \<and> tailUnsafe sc endToken lastTokenOfElseBlock
      then Inr None
      else
        (let fixedSource = (if isOpeningBrace startToken then slice_1_m1 source else source)
         in Inr (Some \<lparr>r_start = tok_start elseToken, r_end = node_end node,
                       r_text = fixedSource\<rparr>)))))))"

definition displayReport :: "sourceCode \<Rightarrow> (node \<times> node) option \<Rightarrow> error + diagnostic" where
  \<comment> \<open>the argument is the alternate with its \<^verbatim>\<open>parent\<close> link, or \<^verbatim>\<open>undefined\<close>\<close>
  "displayReport sc alt =
     bindE (deref alt) (\<lambda>(node, parent).
     bindE (deref (getFirstToken sc node)) (\<lambda>startToken.
     bindE (deref (getTokenBefore sc startToken)) (\<lambda>elseToken.
     bindE (computeFix sc node parent startToken elseToken) (\<lambda>f.
     Inr \<lparr>d_node = elseToken, d_message = ''Using 'else' is unnecessary here.'',
          d_fix = f\<rparr>))))"

section \<open>The chain analyzer\<close>

text \<open>
  The listener \<^verbatim>\<open>"IfStatement:exit"\<close> receives the node; \<^verbatim>\<open>context.getAncestors().pop()\<close>
  is its parent, \<^verbatim>\<open>undefined\<close> for a node without ancestors. The tree of the model has
  no object identity, so the parent comes with the property under which the node hangs
  there: \<^verbatim>\<open>parent.alternate === node\<close> is the key \<open>Alternate\<close>.
\<close>

datatype key = Test | Consequent | Alternate | Body | Child

fun chainWalk ::
  "node list \<Rightarrow> (node \<times> node) option \<Rightarrow> node \<Rightarrow> (node list \<times> (node \<times> node) option) option" where
  \<comment> \<open>the \<^verbatim>\<open>for\<close> loop; \<open>None\<close> is its \<^verbatim>\<open>return\<close>, and the variable \<^verbatim>\<open>alternate\<close> is
      kept with the conditional it hangs under\<close>
  "chainWalk consequents alt (IfStatement s e t c None) = None"
| "chainWalk consequents alt (IfStatement s e t c (Some a)) =
     chainWalk (consequents @ [c]) (Some (a, IfStatement s e t c (Some a))) a"
| "chainWalk consequents alt n = Some (consequents, alt)"

definition IfStatement_exit ::
  "sourceCode \<Rightarrow> (node \<times> key) option \<Rightarrow> node \<Rightarrow> error + diagnostic list" where
  "IfStatement_exit sc ancestor node =
     bindE (deref ancestor) (\<lambda>(parent, k).
       if isIfStatement parent \<and> k = Alternate then Inr []
       else
         (case chainWalk [] None node of
            None \<Rightarrow> Inr []
          | Some (consequents, alt) \<Rightarrow>
              bindE (array_every alwaysHasControlFlow consequents) (\<lambda>b.
                if b then bindE (displayReport sc alt) (\<lambda>d. Inr [d]) else Inr [])))"

section \<open>The traversal and the token store\<close>

text \<open>
  Modelled from the spec: the traverser that calls the listener is not part of the rule's
  file. The spec (sections 4.2 and 5) fixes a single synchronous pass over the tree that
  triggers the analysis at each conditional, and the listener's selector
  \<^verbatim>\<open>"IfStatement:exit"\<close> fixes when: on leaving the node, after its children. \<open>visits\<close>
  lists every node of the tree once, in that order, with its parent and key; an
  exception of a listener ends the pass.
\<close>

fun visits :: "(node \<times> key) option \<Rightarrow> node \<Rightarrow> ((node \<times> key) option \<times> node) list" where
  "visits anc (ReturnStatement s e cs) =
     concat (map (visits (Some (ReturnStatement s e cs, Child))) cs)
     @ [(anc, ReturnStatement s e cs)]"
| "visits anc (ThrowStatement s e cs) =
     concat (map (visits (Some (ThrowStatement s e cs, Child))) cs)
     @ [(anc, ThrowStatement s e cs)]"
| "visits anc (BreakStatement s e) = [(anc, BreakStatement s e)]"
| "visits anc (ContinueStatement s e) = [(anc, ContinueStatement s e)]"
| "visits anc (BlockStatement s e body) =
     concat (map (visits (Some (BlockStatement s e body, Body))) body)
     @ [(anc, BlockStatement s e body)]"
| "visits anc (IfStatement s e t c a) =
     visits (Some (IfStatement s e t c a, Test)) t
     @ visits (Some (IfStatement s e t c a, Consequent)) c
     @ (case a of None \<Rightarrow> [] | Some a' \<Rightarrow> visits (Some (IfStatement s e t c a, Alternate)) a')
     @ [(anc, IfStatement s e t c a)]"
| "visits anc (OtherNode s e cs) =
     concat (map (visits (Some (OtherNode s e cs, Child))) cs)
     @ [(anc, OtherNode s e cs)]"

fun runListeners ::
  "sourceCode \<Rightarrow> ((node \<times> key) option \<times> node) list \<Rightarrow> error + diagnostic list" where
  "runListeners sc [] = Inr []"
| "runListeners sc ((anc, n) # vs) =
     bindE (if isIfStatement n then IfStatement_exit sc anc n else Inr []) (\<lambda>ds.
     bindE (runListeners sc vs) (\<lambda>rest. Inr (ds @ rest)))"

definition lint :: "sourceCode \<Rightarrow> node \<Rightarrow> error + diagnostic list" where
  "lint sc root = runListeners sc (visits None root)"

text \<open>
  Modelled from the spec: the token store behind \<^verbatim>\<open>sourceCode\<close> and the patch engine
  are not part of the rule's file. Section 6 of the spec names the queries: the first
  (last) token of a node, the token immediately before (after) a token, the source text
  slice of a node. Over the text and its token list in source order they are the first
  (last) token inside the node's range, the last token ending at or before the given
  token's start, the first token starting at or after its end, and the characters from
  the node's start to its end. The patch engine replaces the characters of the range by
  the fix text.
\<close>

definition tokenInside :: "node \<Rightarrow> token \<Rightarrow> bool" where
  "tokenInside n t = (node_start n \<le> tok_start t \<and> tok_end t \<le> node_end n)"

definition tokenStore :: "string \<Rightarrow> token list \<Rightarrow> sourceCode" where
  "tokenStore txt toks =
     \<lparr>getFirstToken = (\<lambda>n. find (tokenInside n) toks),
      getLastToken = (\<lambda>n. find (tokenInside n) (rev toks)),
      getTokenBefore = (\<lambda>tok. find (\<lambda>t. tok_end t \<le> tok_start tok) (rev toks)),
      getTokenAfter = (\<lambda>tok. find (\<lambda>t. tok_end tok \<le> tok_start t) toks),
      getText = (\<lambda>n. take (node_end n - node_start n) (drop (node_start n) txt))\<rparr>"

definition applyFix :: "string \<Rightarrow> replacement \<Rightarrow> string" where
  "applyFix txt r = take (r_start r) txt @ r_text r @ drop (r_end r) txt"

section \<open>Chains of conditionals\<close>

text \<open>
  Structural descriptions of a chain, used to state what the analyzer does: whether the
  chain starting at a conditional ends in a plain \<^verbatim>\<open>if\<close> without \<^verbatim>\<open>else\<close>, the
  consequents along its \<^verbatim>\<open>alternate\<close> pointers, and its final else (the first
  alternate that is not a conditional) with the conditional it hangs under.
\<close>

fun endsInPlainIf :: "node \<Rightarrow> bool" where
  "endsInPlainIf (IfStatement s e t c None) = True"
| "endsInPlainIf (IfStatement s e t c (Some a)) = endsInPlainIf a"
| "endsInPlainIf n = False"

fun chainConsequents :: "node \<Rightarrow> node list" where
  "chainConsequents (IfStatement s e t c None) = [c]"
| "chainConsequents (IfStatement s e t c (Some a)) = c # chainConsequents a"
| "chainConsequents n = []"

fun finalElse :: "node \<Rightarrow> (node \<times> node) option" where
  "finalElse (IfStatement s e t c None) = None"
| "finalElse (IfStatement s e t c (Some a)) =
     (if isIfStatement a then finalElse a else Some (a, IfStatement s e t c (Some a)))"
| "finalElse n = None"

definition isInnerLink :: "(node \<times> key) option \<Rightarrow> bool" where
  \<comment> \<open>the node is the \<^verbatim>\<open>alternate\<close> of a conditional: an \<^verbatim>\<open>else if\<close> link\<close>
  "isInnerLink anc = (case anc of None \<Rightarrow> False
                      | Some (parent, k) \<Rightarrow> isIfStatement parent \<and> k = Alternate)"

definition chainHeads :: "node \<Rightarrow> node list" where
  \<comment> \<open>the outermost conditional of every chain of the tree, in the order of the pass\<close>
  "chainHeads root =
     map snd (filter (\<lambda>(anc, n). isIfStatement n \<and> \<not> isInnerLink anc) (visits None root))"

text \<open>
  The rule's classifier in words, without reference to the rule's functions: a node jumps
  naively iff it is a jump statement, or a block that is not empty and whose last
  statement is a jump statement; a statement passes the single-statement test iff it is a
  jump statement, or a conditional with an alternate that is not a conditional whose
  alternate and consequent both jump naively; a branch terminates iff it passes the
  single-statement test, or it is a block and one of its statements does. A chain is
  eligible iff it has a final else and every consequent along it terminates in this
  sense.
\<close>

definition jumpsNaively :: "node \<Rightarrow> bool" where
  "jumpsNaively n = (case n of
       BlockStatement s e body \<Rightarrow> body \<noteq> [] \<and> isControlFlowType (last body)
     | _ \<Rightarrow> isControlFlowType n)"

definition passesSingleTest :: "node \<Rightarrow> bool" where
  "passesSingleTest n = (isControlFlowType n \<or> (case n of
       IfStatement s e t c a \<Rightarrow>
         (case a of None \<Rightarrow> False
          | Some x \<Rightarrow> \<not> isIfStatement x \<and> jumpsNaively x \<and> jumpsNaively c)
     | _ \<Rightarrow> False))"

definition terminating :: "node \<Rightarrow> bool" where
  "terminating n = (case n of
       BlockStatement s e body \<Rightarrow> list_ex passesSingleTest body
     | _ \<Rightarrow> passesSingleTest n)"

definition eligible :: "node \<Rightarrow> bool" where
  "eligible n = (\<not> endsInPlainIf n \<and> list_all terminating (chainConsequents n))"

text \<open>
  The classifier as section 4.1 of the spec words it, to compare with the rule's:
  a block terminates iff its last statement passes the single-statement test; any other
  body iff it passes that test itself; a statement passes iff it is a jump, or a
  conditional with an alternate that is not a conditional whose consequent and
  alternate both terminate, recursively.
\<close>

function (sequential) spec_terminates :: "node \<Rightarrow> bool" and spec_single :: "node \<Rightarrow> bool" where
  "spec_terminates (BlockStatement s e body) =
     (if body = [] then False else spec_single (last body))"
| "spec_terminates n = spec_single n"
| "spec_single (IfStatement s e t c (Some a)) =
     (if isIfStatement a then False else spec_terminates c \<and> spec_terminates a)"
| "spec_single n = isControlFlowType n"
  by pat_completeness auto
termination
proof -
  have last_le: "size (last body) \<le> size_list size body" if "body \<noteq> []" for body :: "node list"
    using that by (induction body) auto
  show ?thesis
    by (relation "measure (\<lambda>x. case x of Inl n \<Rightarrow> 2 * size n + 1 | Inr n \<Rightarrow> 2 * size n)")
       (auto simp: less_Suc_eq_le dest: last_le)
qed

definition spec_eligible :: "node \<Rightarrow> bool" where
  \<comment> \<open>eligibility as section 4.2 of the spec words it, with the classifier of section 4.1\<close>
  "spec_eligible n = (\<not> endsInPlainIf n \<and> list_all spec_terminates (chainConsequents n))"

section \<open>Concrete programs\<close>

text \<open>
  Programs of the spec's scenarios and of the rule's tests, tokenised and parsed by hand.
  The conditionals of a program are numbered in source order; each is defined with its
  then-branch and its else-branch.
\<close>

text \<open>The program \<^verbatim>\<open>function f(){ if (x) { return y; } else { return z; } }\<close>, its tokens and its tree.\<close>
definition text_scenario1 :: string where
  "text_scenario1 = ''function f(){ if (x) { return y; } else { return z; } }''"

definition tokens_scenario1 :: "token list" where
  "tokens_scenario1 =
    [Token ''Keyword'' ''function'' 0 8 1,
     Token ''Identifier'' ''f'' 9 10 1,
     Token ''Punctuator'' ''('' 10 11 1,
     Token ''Punctuator'' '')'' 11 12 1,
     Token ''Punctuator'' ''{'' 12 13 1,
     Token ''Keyword'' ''if'' 14 16 1,
     Token ''Punctuator'' ''('' 17 18 1,
     Token ''Identifier'' ''x'' 18 19 1,
     Token ''Punctuator'' '')'' 19 20 1,
     Token ''Punctuator'' ''{'' 21 22 1,
     Token ''Keyword'' ''return'' 23 29 1,
     Token ''Identifier'' ''y'' 30 31 1,
     Token ''Punctuator'' '';'' 31 32 1,
     Token ''Punctuator'' ''}'' 33 34 1,
     Token ''Keyword'' ''else'' 35 39 1,
     Token ''Punctuator'' ''{'' 40 41 1,
     Token ''Keyword'' ''return'' 42 48 1,
     Token ''Identifier'' ''z'' 49 50 1,
     Token ''Punctuator'' '';'' 50 51 1,
     Token ''Punctuator'' ''}'' 52 53 1,
     Token ''Punctuator'' ''}'' 54 55 1]"

definition scenario1_then1 :: node where
  "scenario1_then1 =
    BlockStatement 21 34 [
      ReturnStatement 23 32 [
        OtherNode 30 31 []]]"

definition scenario1_else1 :: node where
  "scenario1_else1 =
    BlockStatement 40 53 [
      ReturnStatement 42 51 [
        OtherNode 49 50 []]]"

definition scenario1_if1 :: node where
  "scenario1_if1 =
    IfStatement 14 53 (OtherNode 18 19 []) scenario1_then1 (Some scenario1_else1)"

definition program_scenario1 :: node where
  "program_scenario1 =
    OtherNode 0 55 [
      OtherNode 0 55 [
        OtherNode 9 10 [],
        BlockStatement 12 55 [
          scenario1_if1]]]"

text \<open>The program \<^verbatim>\<open>if (foo) return bar; else (foo).bar();\<close>, its tokens and its tree.\<close>
definition text_scenario4 :: string where
  "text_scenario4 = ''if (foo) return bar; else (foo).bar();''"

definition tokens_scenario4 :: "token list" where
  "tokens_scenario4 =
    [Token ''Keyword'' ''if'' 0 2 1,
     Token ''Punctuator'' ''('' 3 4 1,
     Token ''Identifier'' ''foo'' 4 7 1,
     Token ''Punctuator'' '')'' 7 8 1,
     Token ''Keyword'' ''return'' 9 15 1,
     Token ''Identifier'' ''bar'' 16 19 1,
     Token ''Punctuator'' '';'' 19 20 1,
     Token ''Keyword'' ''else'' 21 25 1,
     Token ''Punctuator'' ''('' 26 27 1,
     Token ''Identifier'' ''foo'' 27 30 1,
     Token ''Punctuator'' '')'' 30 31 1,
     Token ''Punctuator'' ''.'' 31 32 1,
     Token ''Identifier'' ''bar'' 32 35 1,
     Token ''Punctuator'' ''('' 35 36 1,
     Token ''Punctuator'' '')'' 36 37 1,
     Token ''Punctuator'' '';'' 37 38 1]"

definition scenario4_then1 :: node where
  "scenario4_then1 =
    ReturnStatement 9 20 [
      OtherNode 16 19 []]"

definition scenario4_else1 :: node where
  "scenario4_else1 =
    OtherNode 26 38 [
      OtherNode 26 37 [
        OtherNode 26 35 [
          OtherNode 27 30 [],
          OtherNode 32 35 []]]]"

definition scenario4_if1 :: node where
  "scenario4_if1 =
    IfStatement 0 38 (OtherNode 4 7 []) scenario4_then1 (Some scenario4_else1)"

definition program_scenario4 :: node where
  "program_scenario4 =
    OtherNode 0 38 [
      scenario4_if1]"

text \<open>The program \<^verbatim>\<open>function f(){ if (x) { if (y) { return y; } else { return x; } } else { return z; } }\<close>, its tokens and its tree.\<close>
definition text_scenario5 :: string where
  "text_scenario5 = ''function f(){ if (x) { if (y) { return y; } else { return x; } } else { return z; } }''"

definition tokens_scenario5 :: "token list" where
  "tokens_scenario5 =
    [Token ''Keyword'' ''function'' 0 8 1,
     Token ''Identifier'' ''f'' 9 10 1,
     Token ''Punctuator'' ''('' 10 11 1,
     Token ''Punctuator'' '')'' 11 12 1,
     Token ''Punctuator'' ''{'' 12 13 1,
     Token ''Keyword'' ''if'' 14 16 1,
     Token ''Punctuator'' ''('' 17 18 1,
     Token ''Identifier'' ''x'' 18 19 1,
     Token ''Punctuator'' '')'' 19 20 1,
     Token ''Punctuator'' ''{'' 21 22 1,
     Token ''Keyword'' ''if'' 23 25 1,
     Token ''Punctuator'' ''('' 26 27 1,
     Token ''Identifier'' ''y'' 27 28 1,
     Token ''Punctuator'' '')'' 28 29 1,
     Token ''Punctuator'' ''{'' 30 31 1,
     Token ''Keyword'' ''return'' 32 38 1,
     Token ''Identifier'' ''y'' 39 40 1,
     Token ''Punctuator'' '';'' 40 41 1,
     Token ''Punctuator'' ''}'' 42 43 1,
     Token ''Keyword'' ''else'' 44 48 1,
     Token ''Punctuator'' ''{'' 49 50 1,
     Token ''Keyword'' ''return'' 51 57 1,
     Token ''Identifier'' ''x'' 58 59 1,
     Token ''Punctuator'' '';'' 59 60 1,
     Token ''Punctuator'' ''}'' 61 62 1,
     Token ''Punctuator'' ''}'' 63 64 1,
     Token ''Keyword'' ''else'' 65 69 1,
     Token ''Punctuator'' ''{'' 70 71 1,
     Token ''Keyword'' ''return'' 72 78 1,
     Token ''Identifier'' ''z'' 79 80 1,
     Token ''Punctuator'' '';'' 80 81 1,
     Token ''Punctuator'' ''}'' 82 83 1,
     Token ''Punctuator'' ''}'' 84 85 1]"

definition scenario5_then2 :: node where
  "scenario5_then2 =
    BlockStatement 30 43 [
      ReturnStatement 32 41 [
        OtherNode 39 40 []]]"

definition scenario5_else2 :: node where
  "scenario5_else2 =
    BlockStatement 49 62 [
      ReturnStatement 51 60 [
        OtherNode 58 59 []]]"

definition scenario5_if2 :: node where
  "scenario5_if2 =
    IfStatement 23 62 (OtherNode 27 28 []) scenario5_then2 (Some scenario5_else2)"

definition scenario5_then1 :: node where
  "scenario5_then1 =
    BlockStatement 21 64 [
      scenario5_if2]"

definition scenario5_else1 :: node where
  "scenario5_else1 =
    BlockStatement 70 83 [
      ReturnStatement 72 81 [
        OtherNode 79 80 []]]"

definition scenario5_if1 :: node where
  "scenario5_if1 =
    IfStatement 14 83 (OtherNode 18 19 []) scenario5_then1 (Some scenario5_else1)"

definition program_scenario5 :: node where
  "program_scenario5 =
    OtherNode 0 85 [
      OtherNode 0 85 [
        OtherNode 9 10 [],
        BlockStatement 12 85 [
          scenario5_if1]]]"

text \<open>The program \<^verbatim>\<open>function f(){ if (x) { return y; foo(); } else { bar(); } }\<close>, its tokens and its tree.\<close>
definition text_jumpFirst :: string where
  "text_jumpFirst = ''function f(){ if (x) { return y; foo(); } else { bar(); } }''"

definition tokens_jumpFirst :: "token list" where
  "tokens_jumpFirst =
    [Token ''Keyword'' ''function'' 0 8 1,
     Token ''Identifier'' ''f'' 9 10 1,
     Token ''Punctuator'' ''('' 10 11 1,
     Token ''Punctuator'' '')'' 11 12 1,
     Token ''Punctuator'' ''{'' 12 13 1,
     Token ''Keyword'' ''if'' 14 16 1,
     Token ''Punctuator'' ''('' 17 18 1,
     Token ''Identifier'' ''x'' 18 19 1,
     Token ''Punctuator'' '')'' 19 20 1,
     Token ''Punctuator'' ''{'' 21 22 1,
     Token ''Keyword'' ''return'' 23 29 1,
     Token ''Identifier'' ''y'' 30 31 1,
     Token ''Punctuator'' '';'' 31 32 1,
     Token ''Identifier'' ''foo'' 33 36 1,
     Token ''Punctuator'' ''('' 36 37 1,
     Token ''Punctuator'' '')'' 37 38 1,
     Token ''Punctuator'' '';'' 38 39 1,
     Token ''Punctuator'' ''}'' 40 41 1,
     Token ''Keyword'' ''else'' 42 46 1,
     Token ''Punctuator'' ''{'' 47 48 1,
     Token ''Identifier'' ''bar'' 49 52 1,
     Token ''Punctuator'' ''('' 52 53 1,
     Token ''Punctuator'' '')'' 53 54 1,
     Token ''Punctuator'' '';'' 54 55 1,
     Token ''Punctuator'' ''}'' 56 57 1,
     Token ''Punctuator'' ''}'' 58 59 1]"

definition jumpFirst_then1 :: node where
  "jumpFirst_then1 =
    BlockStatement 21 41 [
      ReturnStatement 23 32 [
        OtherNode 30 31 []],
      OtherNode 33 39 [
        OtherNode 33 38 [
          OtherNode 33 36 []]]]"

definition jumpFirst_else1 :: node where
  "jumpFirst_else1 =
    BlockStatement 47 57 [
      OtherNode 49 55 [
        OtherNode 49 54 [
          OtherNode 49 52 []]]]"

definition jumpFirst_if1 :: node where
  "jumpFirst_if1 =
    IfStatement 14 57 (OtherNode 18 19 []) jumpFirst_then1 (Some jumpFirst_else1)"

definition program_jumpFirst :: node where
  "program_jumpFirst =
    OtherNode 0 59 [
      OtherNode 0 59 [
        OtherNode 9 10 [],
        BlockStatement 12 59 [
          jumpFirst_if1]]]"

text \<open>The program \<^verbatim>\<open>function f(){ if (a) if (b) { if (c) return 1; else return 2; } else return 3; else g(); }\<close>, its tokens and its tree.\<close>
definition text_deepIf :: string where
  "text_deepIf = ''function f(){ if (a) if (b) { if (c) return 1; else return 2; } else return 3; else g(); }''"

definition tokens_deepIf :: "token list" where
  "tokens_deepIf =
    [Token ''Keyword'' ''function'' 0 8 1,
     Token ''Identifier'' ''f'' 9 10 1,
     Token ''Punctuator'' ''('' 10 11 1,
     Token ''Punctuator'' '')'' 11 12 1,
     Token ''Punctuator'' ''{'' 12 13 1,
     Token ''Keyword'' ''if'' 14 16 1,
     Token ''Punctuator'' ''('' 17 18 1,
     Token ''Identifier'' ''a'' 18 19 1,
     Token ''Punctuator'' '')'' 19 20 1,
     Token ''Keyword'' ''if'' 21 23 1,
     Token ''Punctuator'' ''('' 24 25 1,
     Token ''Identifier'' ''b'' 25 26 1,
     Token ''Punctuator'' '')'' 26 27 1,
     Token ''Punctuator'' ''{'' 28 29 1,
     Token ''Keyword'' ''if'' 30 32 1,
     Token ''Punctuator'' ''('' 33 34 1,
     Token ''Identifier'' ''c'' 34 35 1,
     Token ''Punctuator'' '')'' 35 36 1,
     Token ''Keyword'' ''return'' 37 43 1,
     Token ''Numeric'' ''1'' 44 45 1,
     Token ''Punctuator'' '';'' 45 46 1,
     Token ''Keyword'' ''else'' 47 51 1,
     Token ''Keyword'' ''return'' 52 58 1,
     Token ''Numeric'' ''2'' 59 60 1,
     Token ''Punctuator'' '';'' 60 61 1,
     Token ''Punctuator'' ''}'' 62 63 1,
     Token ''Keyword'' ''else'' 64 68 1,
     Token ''Keyword'' ''return'' 69 75 1,
     Token ''Numeric'' ''3'' 76 77 1,
     Token ''Punctuator'' '';'' 77 78 1,
     Token ''Keyword'' ''else'' 79 83 1,
     Token ''Identifier'' ''g'' 84 85 1,
     Token ''Punctuator'' ''('' 85 86 1,
     Token ''Punctuator'' '')'' 86 87 1,
     Token ''Punctuator'' '';'' 87 88 1,
     Token ''Punctuator'' ''}'' 89 90 1]"

definition deepIf_then3 :: node where
  "deepIf_then3 =
    ReturnStatement 37 46 [
      OtherNode 44 45 []]"

definition deepIf_else3 :: node where
  "deepIf_else3 =
    ReturnStatement 52 61 [
      OtherNode 59 60 []]"

definition deepIf_if3 :: node where
  "deepIf_if3 =
    IfStatement 30 61 (OtherNode 34 35 []) deepIf_then3 (Some deepIf_else3)"

definition deepIf_then2 :: node where
  "deepIf_then2 =
    BlockStatement 28 63 [
      deepIf_if3]"

definition deepIf_else2 :: node where
  "deepIf_else2 =
    ReturnStatement 69 78 [
      OtherNode 76 77 []]"

definition deepIf_if2 :: node where
  "deepIf_if2 =
    IfStatement 21 78 (OtherNode 25 26 []) deepIf_then2 (Some deepIf_else2)"

definition deepIf_then1 :: node where
  "deepIf_then1 =
    deepIf_if2"

definition deepIf_else1 :: node where
  "deepIf_else1 =
    OtherNode 84 88 [
      OtherNode 84 87 [
        OtherNode 84 85 []]]"

definition deepIf_if1 :: node where
  "deepIf_if1 =
    IfStatement 14 88 (OtherNode 18 19 []) deepIf_then1 (Some deepIf_else1)"

definition program_deepIf :: node where
  "program_deepIf =
    OtherNode 0 90 [
      OtherNode 0 90 [
        OtherNode 9 10 [],
        BlockStatement 12 90 [
          deepIf_if1]]]"

text \<open>The program \<^verbatim>\<open>function f(){ if (x) { return y; } else if (z) { return w; } }\<close>, its tokens and its tree.\<close>
definition text_plainIf :: string where
  "text_plainIf = ''function f(){ if (x) { return y; } else if (z) { return w; } }''"

definition tokens_plainIf :: "token list" where
  "tokens_plainIf =
    [Token ''Keyword'' ''function'' 0 8 1,
     Token ''Identifier'' ''f'' 9 10 1,
     Token ''Punctuator'' ''('' 10 11 1,
     Token ''Punctuator'' '')'' 11 12 1,
     Token ''Punctuator'' ''{'' 12 13 1,
     Token ''Keyword'' ''if'' 14 16 1,
     Token ''Punctuator'' ''('' 17 18 1,
     Token ''Identifier'' ''x'' 18 19 1,
     Token ''Punctuator'' '')'' 19 20 1,
     Token ''Punctuator'' ''{'' 21 22 1,
     Token ''Keyword'' ''return'' 23 29 1,
     Token ''Identifier'' ''y'' 30 31 1,
     Token ''Punctuator'' '';'' 31 32 1,
     Token ''Punctuator'' ''}'' 33 34 1,
     Token ''Keyword'' ''else'' 35 39 1,
     Token ''Keyword'' ''if'' 40 42 1,
     Token ''Punctuator'' ''('' 43 44 1,
     Token ''Identifier'' ''z'' 44 45 1,
     Token ''Punctuator'' '')'' 45 46 1,
     Token ''Punctuator'' ''{'' 47 48 1,
     Token ''Keyword'' ''return'' 49 55 1,
     Token ''Identifier'' ''w'' 56 57 1,
     Token ''Punctuator'' '';'' 57 58 1,
     Token ''Punctuator'' ''}'' 59 60 1,
     Token ''Punctuator'' ''}'' 61 62 1]"

definition plainIf_then1 :: node where
  "plainIf_then1 =
    BlockStatement 21 34 [
      ReturnStatement 23 32 [
        OtherNode 30 31 []]]"

definition plainIf_then2 :: node where
  "plainIf_then2 =
    BlockStatement 47 60 [
      ReturnStatement 49 58 [
        OtherNode 56 57 []]]"

definition plainIf_if2 :: node where
  "plainIf_if2 =
    IfStatement 40 60 (OtherNode 44 45 []) plainIf_then2 None"

definition plainIf_if1 :: node where
  "plainIf_if1 =
    IfStatement 14 60 (OtherNode 18 19 []) plainIf_then1 (Some plainIf_if2)"

definition program_plainIf :: node where
  "program_plainIf =
    OtherNode 0 62 [
      OtherNode 0 62 [
        OtherNode 9 10 [],
        BlockStatement 12 62 [
          plainIf_if1]]]"

text \<open>The program \<^verbatim>\<open>function f(){ if (x) { return y; } else if (z) { return w; } else { return t; } }\<close>, its tokens and its tree.\<close>
definition text_elseIf :: string where
  "text_elseIf = ''function f(){ if (x) { return y; } else if (z) { return w; } else { return t; } }''"

definition tokens_elseIf :: "token list" where
  "tokens_elseIf =
    [Token ''Keyword'' ''function'' 0 8 1,
     Token ''Identifier'' ''f'' 9 10 1,
     Token ''Punctuator'' ''('' 10 11 1,
     Token ''Punctuator'' '')'' 11 12 1,
     Token ''Punctuator'' ''{'' 12 13 1,
     Token ''Keyword'' ''if'' 14 16 1,
     Token ''Punctuator'' ''('' 17 18 1,
     Token ''Identifier'' ''x'' 18 19 1,
     Token ''Punctuator'' '')'' 19 20 1,
     Token ''Punctuator'' ''{'' 21 22 1,
     Token ''Keyword'' ''return'' 23 29 1,
     Token ''Identifier'' ''y'' 30 31 1,
     Token ''Punctuator'' '';'' 31 32 1,
     Token ''Punctuator'' ''}'' 33 34 1,
     Token ''Keyword'' ''else'' 35 39 1,
     Token ''Keyword'' ''if'' 40 42 1,
     Token ''Punctuator'' ''('' 43 44 1,
     Token ''Identifier'' ''z'' 44 45 1,
     Token ''Punctuator'' '')'' 45 46 1,
     Token ''Punctuator'' ''{'' 47 48 1,
     Token ''Keyword'' ''return'' 49 55 1,
     Token ''Identifier'' ''w'' 56 57 1,
     Token ''Punctuator'' '';'' 57 58 1,
     Token ''Punctuator'' ''}'' 59 60 1,
     Token ''Keyword'' ''else'' 61 65 1,
     Token ''Punctuator'' ''{'' 66 67 1,
     Token ''Keyword'' ''return'' 68 74 1,
     Token ''Identifier'' ''t'' 75 76 1,
     Token ''Punctuator'' '';'' 76 77 1,
     Token ''Punctuator'' ''}'' 78 79 1,
     Token ''Punctuator'' ''}'' 80 81 1]"

definition elseIf_then1 :: node where
  "elseIf_then1 =
    BlockStatement 21 34 [
      ReturnStatement 23 32 [
        OtherNode 30 31 []]]"

definition elseIf_then2 :: node where
  "elseIf_then2 =
    BlockStatement 47 60 [
      ReturnStatement 49 58 [
        OtherNode 56 57 []]]"

definition elseIf_else2 :: node where
  "elseIf_else2 =
    BlockStatement 66 79 [
      ReturnStatement 68 77 [
        OtherNode 75 76 []]]"

definition elseIf_if2 :: node where
  "elseIf_if2 =
    IfStatement 40 79 (OtherNode 44 45 []) elseIf_then2 (Some elseIf_else2)"

definition elseIf_if1 :: node where
  "elseIf_if1 =
    IfStatement 14 79 (OtherNode 18 19 []) elseIf_then1 (Some elseIf_if2)"

definition program_elseIf :: node where
  "program_elseIf =
    OtherNode 0 81 [
      OtherNode 0 81 [
        OtherNode 9 10 [],
        BlockStatement 12 81 [
          elseIf_if1]]]"

text \<open>The program \<^verbatim>\<open>if (0) { if (0) {} else {} } else {}\<close>, its tokens and its tree.\<close>
definition text_emptyBlocks :: string where
  "text_emptyBlocks = ''if (0) { if (0) {} else {} } else {}''"

definition tokens_emptyBlocks :: "token list" where
  "tokens_emptyBlocks =
    [Token ''Keyword'' ''if'' 0 2 1,
     Token ''Punctuator'' ''('' 3 4 1,
     Token ''Numeric'' ''0'' 4 5 1,
     Token ''Punctuator'' '')'' 5 6 1,
     Token ''Punctuator'' ''{'' 7 8 1,
     Token ''Keyword'' ''if'' 9 11 1,
     Token ''Punctuator'' ''('' 12 13 1,
     Token ''Numeric'' ''0'' 13 14 1,
     Token ''Punctuator'' '')'' 14 15 1,
     Token ''Punctuator'' ''{'' 16 17 1,
     Token ''Punctuator'' ''}'' 17 18 1,
     Token ''Keyword'' ''else'' 19 23 1,
     Token ''Punctuator'' ''{'' 24 25 1,
     Token ''Punctuator'' ''}'' 25 26 1,
     Token ''Punctuator'' ''}'' 27 28 1,
     Token ''Keyword'' ''else'' 29 33 1,
     Token ''Punctuator'' ''{'' 34 35 1,
     Token ''Punctuator'' ''}'' 35 36 1]"

definition emptyBlocks_then2 :: node where
  "emptyBlocks_then2 =
    BlockStatement 16 18 []"

definition emptyBlocks_else2 :: node where
  "emptyBlocks_else2 =
    BlockStatement 24 26 []"

definition emptyBlocks_if2 :: node where
  "emptyBlocks_if2 =
    IfStatement 9 26 (OtherNode 13 14 []) emptyBlocks_then2 (Some emptyBlocks_else2)"

definition emptyBlocks_then1 :: node where
  "emptyBlocks_then1 =
    BlockStatement 7 28 [
      emptyBlocks_if2]"

definition emptyBlocks_else1 :: node where
  "emptyBlocks_else1 =
    BlockStatement 34 36 []"

definition emptyBlocks_if1 :: node where
  "emptyBlocks_if1 =
    IfStatement 0 36 (OtherNode 4 5 []) emptyBlocks_then1 (Some emptyBlocks_else1)"

definition program_emptyBlocks :: node where
  "program_emptyBlocks =
    OtherNode 0 36 [
      emptyBlocks_if1]"


text \<open>The program \<^verbatim>\<open>function f(){ if (a) return; else b(); c(); }\<close>, its tokens and its tree.\<close>
definition text_tailSemicolon :: string where
  "text_tailSemicolon = ''function f(){ if (a) return; else b(); c(); }''"

definition tokens_tailSemicolon :: "token list" where
  "tokens_tailSemicolon =
    [Token ''Keyword'' ''function'' 0 8 1,
     Token ''Identifier'' ''f'' 9 10 1,
     Token ''Punctuator'' ''('' 10 11 1,
     Token ''Punctuator'' '')'' 11 12 1,
     Token ''Punctuator'' ''{'' 12 13 1,
     Token ''Keyword'' ''if'' 14 16 1,
     Token ''Punctuator'' ''('' 17 18 1,
     Token ''Identifier'' ''a'' 18 19 1,
     Token ''Punctuator'' '')'' 19 20 1,
     Token ''Keyword'' ''return'' 21 27 1,
     Token ''Punctuator'' '';'' 27 28 1,
     Token ''Keyword'' ''else'' 29 33 1,
     Token ''Identifier'' ''b'' 34 35 1,
     Token ''Punctuator'' ''('' 35 36 1,
     Token ''Punctuator'' '')'' 36 37 1,
     Token ''Punctuator'' '';'' 37 38 1,
     Token ''Identifier'' ''c'' 39 40 1,
     Token ''Punctuator'' ''('' 40 41 1,
     Token ''Punctuator'' '')'' 41 42 1,
     Token ''Punctuator'' '';'' 42 43 1,
     Token ''Punctuator'' ''}'' 44 45 1]"

definition tailSemicolon_then1 :: node where
  "tailSemicolon_then1 =
    ReturnStatement 21 28 []"

definition tailSemicolon_else1 :: node where
  "tailSemicolon_else1 =
    OtherNode 34 38 [
      OtherNode 34 37 [
        OtherNode 34 35 []]]"

definition tailSemicolon_if1 :: node where
  "tailSemicolon_if1 =
    IfStatement 14 38 (OtherNode 18 19 []) tailSemicolon_then1 (Some tailSemicolon_else1)"

definition program_tailSemicolon :: node where
  "program_tailSemicolon =
    OtherNode 0 45 [
      OtherNode 0 45 [
        OtherNode 9 10 [],
        BlockStatement 12 45 [
          tailSemicolon_if1,
          OtherNode 39 43 [
            OtherNode 39 42 [
              OtherNode 39 40 []]]]]]"


section \<open>Evaluation of the classifier and of the analyzer\<close>

lemma bindE_simps [simp]: "bindE (Inr v) f = f v" "bindE (Inl e) f = Inl e"
  by (simp_all add: bindE_def)

lemma bindE_Inr_id [simp]: "bindE m Inr = m"
  by (cases m) simp_all

lemma deref_simps [simp]: "deref (Some v) = Inr v" "deref None = Inl TypeError"
  by (simp_all add: deref_def)

lemma andE_Inr [simp]: "andE (Inr b) x = (if b then x else Inr False)"
  by (simp add: andE_def)

lemma orE_Inr [simp]: "orE (Inr b) x = (if b then Inr True else x)"
  by (simp add: orE_def)

lemma checkForControlJump_Some [simp]:
  "checkForControlJump (Some n) = Inr (isControlFlowType n)"
  by (simp add: checkForControlJump_def)

lemma naive_block:
  "naiveHasControlJump (Some (BlockStatement s e body)) =
     Inr (body \<noteq> [] \<and> isControlFlowType (last body))"
  by (cases body rule: rev_cases) (simp_all add: naiveHasControlJump_def array_index_def nth_append)

lemma naive_nonblock:
  "\<not> isBlockStatement n \<Longrightarrow> naiveHasControlJump (Some n) = Inr (isControlFlowType n)"
  by (cases n) (simp_all add: naiveHasControlJump_def)

lemma naive_total: "\<exists>b. naiveHasControlJump (Some n) = Inr b"
  by (cases n) (auto simp: naive_block naive_nonblock)

lemma hasElse_If:
  "hasElse (Some (IfStatement s e t c a)) =
     Inr (case a of None \<Rightarrow> False | Some x \<Rightarrow> \<not> isIfStatement x)"
  by (cases a) (simp_all add: hasElse_def)

lemma checkForIf_If:
  "checkForIf (Some (IfStatement s e t c a)) =
     Inr (case a of None \<Rightarrow> False
          | Some x \<Rightarrow> \<not> isIfStatement x \<and> naiveHasControlJump (Some x) = Inr True
                      \<and> naiveHasControlJump (Some c) = Inr True)"
proof (cases a)
  case None
  then show ?thesis by (simp add: checkForIf_def hasElse_If)
next
  case (Some x)
  obtain b1 b2 where "naiveHasControlJump (Some x) = Inr b1" "naiveHasControlJump (Some c) = Inr b2"
    using naive_total by blast
  with Some show ?thesis by (simp add: checkForIf_def hasElse_If)
qed

lemma checkForIf_nonIf: "\<not> isIfStatement n \<Longrightarrow> checkForIf (Some n) = Inr False"
  by (simp add: checkForIf_def)

lemma single_If:
  "checkForControlJumpOrIf (Some (IfStatement s e t c a)) =
     Inr (case a of None \<Rightarrow> False
          | Some x \<Rightarrow> \<not> isIfStatement x \<and> naiveHasControlJump (Some x) = Inr True
                      \<and> naiveHasControlJump (Some c) = Inr True)"
  by (simp add: checkForControlJumpOrIf_def checkForIf_If)

lemma single_nonIf:
  "\<not> isIfStatement n \<Longrightarrow> checkForControlJumpOrIf (Some n) = Inr (isControlFlowType n)"
  by (simp add: checkForControlJumpOrIf_def checkForIf_nonIf)

lemma single_total: "\<exists>b. checkForControlJumpOrIf (Some n) = Inr b"
  by (cases n) (auto simp: single_If single_nonIf)

lemma array_some_total:
  "(\<And>x. \<exists>b. f (Some x) = Inr b) \<Longrightarrow>
     array_some f xs = Inr (\<exists>x \<in> set xs. f (Some x) = Inr True)"
proof (induction xs)
  case Nil
  show ?case by simp
next
  case (Cons x xs)
  obtain b where "f (Some x) = Inr b" using Cons.prems by blast
  with Cons show ?case by (cases b) auto
qed

lemma array_every_total:
  "(\<And>x. \<exists>b. f (Some x) = Inr b) \<Longrightarrow>
     array_every f xs = Inr (list_all (\<lambda>x. f (Some x) = Inr True) xs)"
proof (induction xs)
  case Nil
  show ?case by simp
next
  case (Cons x xs)
  obtain b where "f (Some x) = Inr b" using Cons.prems by blast
  with Cons show ?case by (cases b) auto
qed

lemma always_block:
  "alwaysHasControlFlow (Some (BlockStatement s e body)) =
     Inr (\<exists>stmt \<in> set body. checkForControlJumpOrIf (Some stmt) = Inr True)"
  by (simp add: alwaysHasControlFlow_def array_some_total single_total)

lemma always_nonblock:
  "\<not> isBlockStatement n \<Longrightarrow> alwaysHasControlFlow (Some n) = checkForControlJumpOrIf (Some n)"
  by (cases n) (simp_all add: alwaysHasControlFlow_def)

lemma always_total: "\<exists>b. alwaysHasControlFlow (Some n) = Inr b"
proof (cases "isBlockStatement n")
  case True
  then show ?thesis by (cases n) (auto simp: always_block)
next
  case False
  then show ?thesis by (simp add: always_nonblock single_total)
qed

lemma naive_eq: "naiveHasControlJump (Some n) = Inr (jumpsNaively n)"
  by (cases n) (simp_all add: jumpsNaively_def naive_block naive_nonblock)

lemma single_eq: "checkForControlJumpOrIf (Some n) = Inr (passesSingleTest n)"
proof (cases "isIfStatement n")
  case True
  then obtain s e t c a where "n = IfStatement s e t c a" by (cases n) auto
  then show ?thesis
    by (cases a) (simp_all add: single_If passesSingleTest_def naive_eq)
next
  case False
  then show ?thesis
    by (cases n) (simp_all add: single_nonIf passesSingleTest_def)
qed

lemma always_eq: "alwaysHasControlFlow (Some n) = Inr (terminating n)"
proof (cases "isBlockStatement n")
  case True
  then obtain s e body where "n = BlockStatement s e body" by (cases n) auto
  then show ?thesis
    by (simp add: always_block terminating_def single_eq list_ex_iff)
next
  case False
  then show ?thesis
    by (cases n) (simp_all add: always_nonblock terminating_def single_eq)
qed

lemma nonIf_chain [simp]:
  "\<not> isIfStatement n \<Longrightarrow> \<not> endsInPlainIf n"
  "\<not> isIfStatement n \<Longrightarrow> chainConsequents n = []"
  "\<not> isIfStatement n \<Longrightarrow> finalElse n = None"
  by (cases n; simp)+

lemma chainWalk_eq:
  "chainWalk cs alt n =
     (if isIfStatement n
      then (if endsInPlainIf n then None else Some (cs @ chainConsequents n, finalElse n))
      else Some (cs, alt))"
  by (induction cs alt n rule: chainWalk.induct) (auto split: if_splits)

lemma IfStatement_exit_eq:
  "IfStatement_exit sc (Some (parent, k)) (IfStatement s e t c a) =
     (if isIfStatement parent \<and> k = Alternate then Inr []
      else if eligible (IfStatement s e t c a)
           then bindE (displayReport sc (finalElse (IfStatement s e t c a))) (\<lambda>d. Inr [d])
           else Inr [])"
  by (simp add: IfStatement_exit_def chainWalk_eq eligible_def array_every_total always_total
      always_eq)


lemma runListeners_heads:
  "runListeners sc vs =
     runListeners sc (filter (\<lambda>(anc, n). \<not> (isIfStatement n \<and> isInnerLink anc)) vs)"
proof (induction vs)
  case Nil
  show ?case by simp
next
  case (Cons v vs)
  obtain anc n where v: "v = (anc, n)" by (cases v)
  show ?case
  proof (cases "isIfStatement n \<and> isInnerLink anc")
    case True
    then obtain parent where "anc = Some (parent, Alternate)" "isIfStatement parent"
      by (auto simp: isInnerLink_def split: option.splits)
    with True have "IfStatement_exit sc anc n = Inr []"
      by (simp add: IfStatement_exit_def)
    with True v Cons show ?thesis by simp
  next
    case False
    with v Cons show ?thesis by auto
  qed
qed

lemma runListeners_count:
  "runListeners sc vs = Inr ds \<Longrightarrow>
     length ds = length (filter eligible
       (map snd (filter (\<lambda>(anc, n). isIfStatement n \<and> \<not> isInnerLink anc) vs)))"
proof (induction vs arbitrary: ds)
  case Nil
  then show ?case by simp
next
  case (Cons v vs)
  obtain anc n where v: "v = (anc, n)" by (cases v)
  from Cons.prems v obtain ds1 ds2 where
    h: "(if isIfStatement n then IfStatement_exit sc anc n else Inr []) = Inr ds1"
    and r: "runListeners sc vs = Inr ds2" and ds: "ds = ds1 @ ds2"
    by (auto simp: bindE_def split: sum.splits)
  have "length ds1 = (if isIfStatement n \<and> \<not> isInnerLink anc \<and> eligible n then 1 else 0)"
  proof (cases "isIfStatement n")
    case False
    with h show ?thesis by auto
  next
    case True
    then obtain s e t c a where n: "n = IfStatement s e t c a" by (cases n) auto
    from h True obtain parent k where anc: "anc = Some (parent, k)"
      by (cases anc) (auto simp: IfStatement_exit_def)
    from h show ?thesis unfolding n anc
      by (auto simp: IfStatement_exit_eq isInnerLink_def bindE_def split: if_splits sum.splits)
  qed
  with Cons.IH[OF r] v ds show ?case by auto
qed


section \<open>The reporter\<close>

lemma slice_1_m1_eq: "slice_1_m1 source = butlast (tl source)"
  by (simp add: slice_1_m1_def butlast_conv_take drop_Suc numeral_2_eq_2)

lemma displayReport_Inr:
  assumes "displayReport sc (Some (node, parent)) = Inr d"
  shows "\<exists>startToken elseToken f. getFirstToken sc node = Some startToken
     \<and> getTokenBefore sc startToken = Some elseToken
     \<and> computeFix sc node parent startToken elseToken = Inr f
     \<and> d = \<lparr>d_node = elseToken, d_message = ''Using 'else' is unnecessary here.'', d_fix = f\<rparr>"
proof -
  from assms obtain startToken where st: "getFirstToken sc node = Some startToken"
    by (cases "getFirstToken sc node") (simp_all add: displayReport_def)
  from assms st obtain elseToken where et: "getTokenBefore sc startToken = Some elseToken"
    by (cases "getTokenBefore sc startToken") (simp_all add: displayReport_def)
  from assms st et obtain f where f: "computeFix sc node parent startToken elseToken = Inr f"
    by (cases "computeFix sc node parent startToken elseToken") (simp_all add: displayReport_def)
  from assms st et f show ?thesis by (simp add: displayReport_def)
qed

lemma computeFix_Some:
  assumes "computeFix sc node parent startToken elseToken = Inr (Some r)"
  shows "r = \<lparr>r_start = tok_start elseToken, r_end = node_end node,
          r_text = (if isOpeningBrace startToken then slice_1_m1 (getText sc node)
                    else getText sc node)\<rparr>"
  using assms unfolding computeFix_def Let_def bindE_def deref_def andE_def
  by (simp split: option.splits sum.splits if_splits)


lemma displayReport_fix:
  assumes "displayReport sc (Some (node, parent)) = Inr d" and "d_fix d = Some r"
  shows "\<exists>startToken. getFirstToken sc node = Some startToken
           \<and> getTokenBefore sc startToken = Some (d_node d)
           \<and> r_start r = tok_start (d_node d) \<and> r_end r = node_end node
           \<and> r_text r = (if isOpeningBrace startToken then butlast (tl (getText sc node))
                          else getText sc node)"
proof -
  from displayReport_Inr[OF assms(1)] obtain startToken elseToken f where
    st: "getFirstToken sc node = Some startToken"
    and et: "getTokenBefore sc startToken = Some elseToken"
    and f: "computeFix sc node parent startToken elseToken = Inr f"
    and d: "d = \<lparr>d_node = elseToken, d_message = ''Using 'else' is unnecessary here.'', d_fix = f\<rparr>"
    by blast
  from d assms(2) have "f = Some r" by simp
  with f have "r = \<lparr>r_start = tok_start elseToken, r_end = node_end node,
          r_text = (if isOpeningBrace startToken then slice_1_m1 (getText sc node)
                    else getText sc node)\<rparr>"
    using computeFix_Some by blast
  with st et d show ?thesis by (simp add: slice_1_m1_eq)
qed


text \<open>
  Claim C1. For the program \<^verbatim>\<open>function f(){ if (x) { return y; } else { return z; } }\<close>
  the rule emits exactly one diagnostic, anchored at the \<^verbatim>\<open>else\<close> keyword; its fix
  replaces the range from the start of \<^verbatim>\<open>else\<close> to the end of the else body by the
  body's text without its braces, which gives
  \<^verbatim>\<open>function f(){ if (x) { return y; }  return z;  }\<close>. In general, whenever the
  reporter produces a fix, its range runs from the start of the \<^verbatim>\<open>else\<close> token (the
  token before the body's first token) to the end of the body, and its text is the body's
  source without its first and last character when the body is braced (its first token is
  the punctuator \<^verbatim>\<open>{\<close>), and the body's source verbatim otherwise.
\<close>

theorem else_fix_strips_braces:
  "lint (tokenStore text_scenario1 tokens_scenario1) program_scenario1 =
     Inr [\<lparr>d_node = Token ''Keyword'' ''else'' 35 39 1,
           d_message = ''Using 'else' is unnecessary here.'',
           d_fix = Some \<lparr>r_start = 35, r_end = 53, r_text = '' return z; ''\<rparr>\<rparr>]
   \<and> applyFix text_scenario1 \<lparr>r_start = 35, r_end = 53, r_text = '' return z; ''\<rparr>
       = ''function f(){ if (x) { return y; }  return z;  }''
   \<and> (\<forall>sc node parent d r.
         displayReport sc (Some (node, parent)) = Inr d \<and> d_fix d = Some r \<longrightarrow>
         (\<exists>startToken. getFirstToken sc node = Some startToken
            \<and> getTokenBefore sc startToken = Some (d_node d)
            \<and> r_start r = tok_start (d_node d) \<and> r_end r = node_end node
            \<and> r_text r = (if isOpeningBrace startToken then butlast (tl (getText sc node))
                           else getText sc node)))"
proof (intro conjI allI impI)
  show "lint (tokenStore text_scenario1 tokens_scenario1) program_scenario1 =
     Inr [\<lparr>d_node = Token ''Keyword'' ''else'' 35 39 1,
           d_message = ''Using 'else' is unnecessary here.'',
           d_fix = Some \<lparr>r_start = 35, r_end = 53, r_text = '' return z; ''\<rparr>\<rparr>]"
    by code_simp
  show "applyFix text_scenario1 \<lparr>r_start = 35, r_end = 53, r_text = '' return z; ''\<rparr>
       = ''function f(){ if (x) { return y; }  return z;  }''"
    by code_simp
next
  fix sc node parent d r
  assume "displayReport sc (Some (node, parent)) = Inr d \<and> d_fix d = Some r"
  then show "\<exists>startToken. getFirstToken sc node = Some startToken
            \<and> getTokenBefore sc startToken = Some (d_node d)
            \<and> r_start r = tok_start (d_node d) \<and> r_end r = node_end node
            \<and> r_text r = (if isOpeningBrace startToken then butlast (tl (getText sc node))
                           else getText sc node)"
    using displayReport_fix by blast
qed

theorem else_fix_strips_braces_witness:
  "displayReport (tokenStore text_scenario1 tokens_scenario1)
       (Some (scenario1_else1, scenario1_if1))
     = Inr \<lparr>d_node = Token ''Keyword'' ''else'' 35 39 1,
            d_message = ''Using 'else' is unnecessary here.'',
            d_fix = Some \<lparr>r_start = 35, r_end = 53, r_text = '' return z; ''\<rparr>\<rparr>
   \<and> getFirstToken (tokenStore text_scenario1 tokens_scenario1) scenario1_else1
       = Some (Token ''Punctuator'' ''{'' 40 41 1)
   \<and> isOpeningBrace (Token ''Punctuator'' ''{'' 40 41 1)
   \<and> '' return z; ''
       = butlast (tl (getText (tokenStore text_scenario1 tokens_scenario1) scenario1_else1))"
proof -
  let ?sc = "tokenStore text_scenario1 tokens_scenario1"
  let ?r = "\<lparr>r_start = 35, r_end = 53, r_text = '' return z; ''\<rparr>"
  let ?d = "\<lparr>d_node = Token ''Keyword'' ''else'' 35 39 1,
            d_message = ''Using 'else' is unnecessary here.'', d_fix = Some ?r\<rparr>"
  have a: "displayReport ?sc (Some (scenario1_else1, scenario1_if1)) = Inr ?d"
    by code_simp
  have b: "getFirstToken ?sc scenario1_else1 = Some (Token ''Punctuator'' ''{'' 40 41 1)"
    by code_simp
  have c: "isOpeningBrace (Token ''Punctuator'' ''{'' 40 41 1)"
    by code_simp
  have "d_fix ?d = Some ?r" by simp
  with a have "displayReport ?sc (Some (scenario1_else1, scenario1_if1)) = Inr ?d
      \<and> d_fix ?d = Some ?r" ..
  from else_fix_strips_braces[THEN conjunct2, THEN conjunct2, rule_format, OF this]
  obtain startToken where "getFirstToken ?sc scenario1_else1 = Some startToken"
    and "r_text ?r = (if isOpeningBrace startToken
                          then butlast (tl (getText ?sc scenario1_else1))
                          else getText ?sc scenario1_else1)"
    by blast
  with b c have "r_text ?r = butlast (tl (getText ?sc scenario1_else1))"
    by simp
  then have "'' return z; '' = butlast (tl (getText ?sc scenario1_else1))"
    by simp
  with a b c show ?thesis by blast
qed

lemma unsafeStart_iff: "unsafeStart v = (\<exists>c cs. v = c # cs \<and> c \<in> set ''([/+`-'')"
  by (cases v) (auto simp: unsafeStart_def)

text \<open>
  What the reporter computes, with the tokens it reads named as in the source. Here
  \<open>endToken\<close> is the last token of the else body and \<open>lastTokenOfElseBlock\<close> the token
  before it, also when the body is not braced. The diagnostic is reported at the
  \<^verbatim>\<open>else\<close> token in every case, and the fix is withheld exactly when the consequent is
  not a block and the token before \<^verbatim>\<open>else\<close> is not a semicolon and the first token
  inside the else body begins with one of \<^verbatim>\<open>( [ / + ` -\<close>, or when
  \<open>lastTokenOfElseBlock\<close> is not a semicolon and a token follows the body that begins
  with one of those characters, or starts on the line of \<open>lastTokenOfElseBlock\<close> and is
  not \<^verbatim>\<open>}\<close>.
\<close>

lemma reporter_withholds_iff:
  assumes "getFirstToken sc node = Some startToken"
    and "getTokenBefore sc startToken = Some elseToken"
    and "getTokenBefore sc elseToken = Some lastIfToken"
    and "(if isOpeningBrace startToken then getTokenAfter sc startToken else Some startToken)
           = Some firstTokenOfElseBlock"
    and "getLastToken sc node = Some endToken"
    and "getTokenBefore sc endToken = Some lastTokenOfElseBlock"
    and "parent = IfStatement s e t c (Some node)"
  shows "(\<exists>d. displayReport sc (Some (node, parent)) = Inr d \<and> d_node d = elseToken \<and>
    ((d_fix d = None) =
       ((\<not> isBlockStatement c \<and> tok_value lastIfToken \<noteq> '';''
           \<and> unsafeStart (tok_value firstTokenOfElseBlock))
        \<or> (tok_value lastTokenOfElseBlock \<noteq> '';''
           \<and> (\<exists>nextToken. getTokenAfter sc endToken = Some nextToken
                \<and> (unsafeStart (tok_value nextToken)
                    \<or> (tok_line nextToken = tok_line lastTokenOfElseBlock
                        \<and> tok_value nextToken \<noteq> ''}'')))))))
    \<and> (\<forall>v. unsafeStart v = (\<exists>c cs. v = c # cs \<and> c \<in> set ''([/+`-''))"
proof -
  have tail: "tailUnsafe sc endToken lastTokenOfElseBlock =
      (\<exists>nextToken. getTokenAfter sc endToken = Some nextToken
                \<and> (unsafeStart (tok_value nextToken)
                    \<or> (tok_line nextToken = tok_line lastTokenOfElseBlock
                        \<and> tok_value nextToken \<noteq> ''}'')))"
    by (cases "getTokenAfter sc endToken") (simp_all add: tailUnsafe_def)
  have "\<exists>f. computeFix sc node parent startToken elseToken = Inr f \<and>
     ((f = None) =
       ((\<not> isBlockStatement c \<and> tok_value lastIfToken \<noteq> '';''
           \<and> unsafeStart (tok_value firstTokenOfElseBlock))
        \<or> (tok_value lastTokenOfElseBlock \<noteq> '';''
           \<and> tailUnsafe sc endToken lastTokenOfElseBlock)))"
    using assms(3-7) unfolding computeFix_def Let_def
    by simp
  then obtain f where "computeFix sc node parent startToken elseToken = Inr f"
    and "(f = None) =
       ((\<not> isBlockStatement c \<and> tok_value lastIfToken \<noteq> '';''
           \<and> unsafeStart (tok_value firstTokenOfElseBlock))
        \<or> (tok_value lastTokenOfElseBlock \<noteq> '';''
           \<and> tailUnsafe sc endToken lastTokenOfElseBlock))"
    by blast
  with assms(1,2) tail show ?thesis
    by (simp add: displayReport_def unsafeStart_iff)
qed


text \<open>
  Claim C3 (the code departs from it). In
  \<^verbatim>\<open>function f(){ if (a) return; else b(); c(); }\<close> the token before \<^verbatim>\<open>else\<close> is a
  semicolon and the else body \<^verbatim>\<open>b();\<close> starts with \<^verbatim>\<open>b\<close>, so the first hazard is
  absent; the else body is unbraced and its last token is a semicolon, so the tail
  hazard of the claim is absent too, and the claim says a fix is produced. The rule
  takes the token before the body's last token, here \<^verbatim>\<open>)\<close>, for the last token of the
  else block, finds \<^verbatim>\<open>c\<close> after the body on the same line, and withholds the fix.
\<close>

theorem unbraced_tail_fix_withheld:
  "lint (tokenStore text_tailSemicolon tokens_tailSemicolon) program_tailSemicolon =
     Inr [\<lparr>d_node = Token ''Keyword'' ''else'' 29 33 1,
           d_message = ''Using 'else' is unnecessary here.'',
           d_fix = None\<rparr>]
   \<and> getTokenBefore (tokenStore text_tailSemicolon tokens_tailSemicolon)
         (Token ''Keyword'' ''else'' 29 33 1) = Some (Token ''Punctuator'' '';'' 27 28 1)
   \<and> getFirstToken (tokenStore text_tailSemicolon tokens_tailSemicolon) tailSemicolon_else1
         = Some (Token ''Identifier'' ''b'' 34 35 1)
   \<and> \<not> isOpeningBrace (Token ''Identifier'' ''b'' 34 35 1)
   \<and> \<not> unsafeStart ''b''
   \<and> getLastToken (tokenStore text_tailSemicolon tokens_tailSemicolon) tailSemicolon_else1
         = Some (Token ''Punctuator'' '';'' 37 38 1)
   \<and> getTokenBefore (tokenStore text_tailSemicolon tokens_tailSemicolon)
         (Token ''Punctuator'' '';'' 37 38 1) = Some (Token ''Punctuator'' '')'' 36 37 1)
   \<and> getTokenAfter (tokenStore text_tailSemicolon tokens_tailSemicolon)
         (Token ''Punctuator'' '';'' 37 38 1) = Some (Token ''Identifier'' ''c'' 39 40 1)"
  by code_simp

text \<open>
  Claim C4 (as the spec states it, refuted). On the program
  \<^verbatim>\<open>if (foo) return bar; else (foo).bar();\<close> the rule emits one diagnostic and does not
  withhold the fix: the diagnostic carries the replacement of the range from 21 to 38 by
  \<^verbatim>\<open>(foo).bar();\<close>.
\<close>

theorem scenario4_fix_not_withheld:
  "lint (tokenStore text_scenario4 tokens_scenario4) program_scenario4 =
     Inr [\<lparr>d_node = Token ''Keyword'' ''else'' 21 25 1,
           d_message = ''Using 'else' is unnecessary here.'',
           d_fix = Some \<lparr>r_start = 21, r_end = 38, r_text = ''(foo).bar();''\<rparr>\<rparr>]"
  by code_simp

text \<open>
  Claim C4, amended. On that program the rule emits one diagnostic at the \<^verbatim>\<open>else\<close>
  keyword and produces the fix, because the token before \<^verbatim>\<open>else\<close> is the semicolon
  that ends the unbraced consequent (so the else body's leading \<^verbatim>\<open>(\<close> is no hazard)
  and no token follows the else body; applying the fix gives
  \<^verbatim>\<open>if (foo) return bar; (foo).bar();\<close>.
\<close>

theorem scenario4_fix_produced:
  "map_sum id (map (\<lambda>d. (d_node d, map_option (applyFix text_scenario4) (d_fix d))))
       (lint (tokenStore text_scenario4 tokens_scenario4) program_scenario4)
     = Inr [(Token ''Keyword'' ''else'' 21 25 1, Some ''if (foo) return bar; (foo).bar();'')]
   \<and> \<not> isBlockStatement scenario4_then1
   \<and> getTokenBefore (tokenStore text_scenario4 tokens_scenario4)
         (Token ''Keyword'' ''else'' 21 25 1) = Some (Token ''Punctuator'' '';'' 19 20 1)
   \<and> getFirstToken (tokenStore text_scenario4 tokens_scenario4) scenario4_else1
         = Some (Token ''Punctuator'' ''('' 26 27 1)
   \<and> getLastToken (tokenStore text_scenario4 tokens_scenario4) scenario4_else1
         = Some (Token ''Punctuator'' '';'' 37 38 1)
   \<and> getTokenAfter (tokenStore text_scenario4 tokens_scenario4)
         (Token ''Punctuator'' '';'' 37 38 1) = None"
  by code_simp

section \<open>The classifier\<close>

text \<open>
  Claim C2 (as the spec states it, refuted). In
  \<^verbatim>\<open>function f(){ if (x) { return y; foo(); } else { bar(); } }\<close> the consequent is a
  block whose jump is followed by another statement. Its last statement fails the
  single-statement test, and the classifier of the spec's section 4.1 says it does not
  terminate; the rule's classifier says it does, and the chain is reported.
\<close>

theorem jump_not_last_counterexample:
  "jumpFirst_then1 = BlockStatement 21 41
       [ReturnStatement 23 32 [OtherNode 30 31 []],
        OtherNode 33 39 [OtherNode 33 38 [OtherNode 33 36 []]]]
   \<and> checkForControlJumpOrIf (Some (OtherNode 33 39 [OtherNode 33 38 [OtherNode 33 36 []]]))
       = Inr False
   \<and> spec_terminates jumpFirst_then1 = False
   \<and> alwaysHasControlFlow (Some jumpFirst_then1) = Inr True
   \<and> lint (tokenStore text_jumpFirst tokens_jumpFirst) program_jumpFirst =
       Inr [\<lparr>d_node = Token ''Keyword'' ''else'' 42 46 1,
             d_message = ''Using 'else' is unnecessary here.'',
             d_fix = Some \<lparr>r_start = 42, r_end = 57, r_text = '' bar(); ''\<rparr>\<rparr>]"
  by code_simp

text \<open>
  Claim C2, amended. The classifier applied to the branches of a chain,
  \<open>alwaysHasControlFlow\<close>, classifies a block as terminating iff at least one of its
  statements, at any position, passes the single-statement test; so a block whose jump
  is followed by further statements is classified as terminating. Only the naive test
  \<open>naiveHasControlJump\<close>, which the single-statement test applies to the two branches of
  a conditional, looks at the last statement: it holds of a block iff the block is not
  empty and its last statement is a jump.
\<close>

theorem block_terminates_iff_some_statement:
  "alwaysHasControlFlow (Some (BlockStatement s e body)) =
       Inr (\<exists>stmt \<in> set body. checkForControlJumpOrIf (Some stmt) = Inr True)
   \<and> (isControlFlowType j \<longrightarrow>
        alwaysHasControlFlow (Some (BlockStatement s e (before @ j # after))) = Inr True)
   \<and> naiveHasControlJump (Some (BlockStatement s e body)) =
       Inr (body \<noteq> [] \<and> isControlFlowType (last body))"
proof (intro conjI impI)
  show "alwaysHasControlFlow (Some (BlockStatement s e body)) =
       Inr (\<exists>stmt \<in> set body. checkForControlJumpOrIf (Some stmt) = Inr True)"
    by (rule always_block)
  show "naiveHasControlJump (Some (BlockStatement s e body)) =
       Inr (body \<noteq> [] \<and> isControlFlowType (last body))"
    by (rule naive_block)
next
  assume j: "isControlFlowType j"
  then have "\<not> isIfStatement j" by (cases j) simp_all
  with j have "checkForControlJumpOrIf (Some j) = Inr True"
    by (simp add: single_nonIf)
  then show "alwaysHasControlFlow (Some (BlockStatement s e (before @ j # after))) = Inr True"
    by (auto simp: always_block)
qed

theorem block_terminates_iff_some_statement_witness:
  "isControlFlowType (ReturnStatement 23 32 [OtherNode 30 31 []])
   \<and> alwaysHasControlFlow (Some (BlockStatement 21 41
        ([] @ ReturnStatement 23 32 [OtherNode 30 31 []]
            # [OtherNode 33 39 [OtherNode 33 38 [OtherNode 33 36 []]]]))) = Inr True"
proof -
  have j: "isControlFlowType (ReturnStatement 23 32 [OtherNode 30 31 []])"
    by simp
  from block_terminates_iff_some_statement[THEN conjunct2, THEN conjunct1, rule_format, OF j]
  show ?thesis using j by blast
qed

text \<open>
  Claim C5 (as the spec states it, refuted). In
  \<^verbatim>\<open>function f(){ if (a) if (b) { if (c) return 1; else return 2; } else return 3; else g(); }\<close>
  the consequent of the outer conditional is the single conditional
  \<^verbatim>\<open>if (b) { ... } else return 3;\<close>. It has a genuine \<^verbatim>\<open>else\<close>, and its consequent (a
  block ending in a conditional whose two branches return) and its alternate both
  terminate by the recursive test of the spec's section 4.1; the rule does not classify
  it as terminating, and reports only the two inner chains.
\<close>

theorem nested_conditional_counterexample:
  "deepIf_then1 = IfStatement 21 78 (OtherNode 25 26 []) deepIf_then2 (Some deepIf_else2)
   \<and> \<not> isIfStatement deepIf_else2
   \<and> spec_terminates deepIf_then2 = True
   \<and> spec_terminates deepIf_else2 = True
   \<and> spec_terminates deepIf_then1 = True
   \<and> alwaysHasControlFlow (Some deepIf_then1) = Inr False
   \<and> map_sum id (map (\<lambda>d. tok_start (d_node d)))
        (lint (tokenStore text_deepIf tokens_deepIf) program_deepIf) = Inr [47, 64]"
  by code_simp

text \<open>
  Claim C5, amended. A conditional statement passes the single-statement test, and so
  makes a branch that consists of it terminating, iff it has an alternate that is not a
  conditional and both that alternate and its consequent pass the naive jump test, which
  is not recursive: the node is itself a jump statement, or it is a block whose last
  statement is a jump statement. A conditional with no alternate, or whose alternate is
  another conditional, never passes.
\<close>

theorem conditional_terminates_iff_naive:
  "checkForControlJumpOrIf (Some (IfStatement s e t c a)) =
       Inr (case a of None \<Rightarrow> False
            | Some x \<Rightarrow> \<not> isIfStatement x \<and> naiveHasControlJump (Some x) = Inr True
                        \<and> naiveHasControlJump (Some c) = Inr True)
   \<and> alwaysHasControlFlow (Some (IfStatement s e t c a)) =
       checkForControlJumpOrIf (Some (IfStatement s e t c a))
   \<and> naiveHasControlJump (Some n) =
       Inr (case n of BlockStatement s' e' body \<Rightarrow> body \<noteq> [] \<and> isControlFlowType (last body)
            | _ \<Rightarrow> isControlFlowType n)
   \<and> checkForControlJumpOrIf (Some (IfStatement s e t c None)) = Inr False
   \<and> checkForControlJumpOrIf (Some (IfStatement s e t c (Some (IfStatement s2 e2 t2 c2 a2))))
       = Inr False"
proof (intro conjI)
  show "naiveHasControlJump (Some n) =
       Inr (case n of BlockStatement s' e' body \<Rightarrow> body \<noteq> [] \<and> isControlFlowType (last body)
            | _ \<Rightarrow> isControlFlowType n)"
    by (cases n) (simp_all add: naive_block naive_nonblock)
qed (simp_all add: single_If always_nonblock)

theorem conditional_terminates_iff_naive_witness:
  "checkForControlJumpOrIf (Some deepIf_if3) = Inr True
   \<and> checkForControlJumpOrIf (Some deepIf_if2) = Inr False
   \<and> naiveHasControlJump (Some deepIf_then2) = Inr False"
proof -
  have n1: "naiveHasControlJump (Some deepIf_then3) = Inr True"
    and n2: "naiveHasControlJump (Some deepIf_else3) = Inr True"
    and n3: "naiveHasControlJump (Some deepIf_then2) = Inr False"
    and i3: "\<not> isIfStatement deepIf_else3"
    by code_simp+
  from conditional_terminates_iff_naive[THEN conjunct1,
      of 30 61 "OtherNode 34 35 []" deepIf_then3 "Some deepIf_else3"] n1 n2 i3
  have a: "checkForControlJumpOrIf (Some deepIf_if3) = Inr True"
    by (simp add: deepIf_if3_def)
  from conditional_terminates_iff_naive[THEN conjunct1,
      of 21 78 "OtherNode 25 26 []" deepIf_then2 "Some deepIf_else2"] n3
  have b: "checkForControlJumpOrIf (Some deepIf_if2) = Inr False"
    by (simp add: deepIf_if2_def)
  from a b n3 show ?thesis by blast
qed

section \<open>The chain analyzer and the pass\<close>

text \<open>
  Claim C6. The listener analyses a chain only from its outermost conditional: called on
  a conditional that is the \<^verbatim>\<open>alternate\<close> of another conditional (an \<^verbatim>\<open>else if\<close> link) it
  returns at once and reports nothing, whatever the chain below it looks like. The whole
  pass therefore yields what running the listener at the other visits alone yields: no
  inner link is analysed or reported as a chain head of its own.
\<close>

theorem inner_link_not_analysed:
  "IfStatement_exit sc (Some (IfStatement s e t c a, Alternate)) node = Inr []
   \<and> lint sc root =
       runListeners sc
         (filter (\<lambda>(anc, n). \<not> (isIfStatement n \<and> isInnerLink anc)) (visits None root))"
proof
  show "IfStatement_exit sc (Some (IfStatement s e t c a, Alternate)) node = Inr []"
    by (simp add: IfStatement_exit_def)
  show "lint sc root =
       runListeners sc
         (filter (\<lambda>(anc, n). \<not> (isIfStatement n \<and> isInnerLink anc)) (visits None root))"
    unfolding lint_def by (rule runListeners_heads)
qed

theorem inner_link_not_analysed_witness:
  "IfStatement_exit (tokenStore text_elseIf tokens_elseIf) (Some (elseIf_if1, Alternate))
       elseIf_if2 = Inr []
   \<and> eligible elseIf_if2
   \<and> lint (tokenStore text_elseIf tokens_elseIf) program_elseIf =
       Inr [\<lparr>d_node = Token ''Keyword'' ''else'' 61 65 1,
             d_message = ''Using 'else' is unnecessary here.'',
             d_fix = Some \<lparr>r_start = 61, r_end = 79, r_text = '' return t; ''\<rparr>\<rparr>]"
proof -
  have a: "IfStatement_exit (tokenStore text_elseIf tokens_elseIf)
      (Some (elseIf_if1, Alternate)) elseIf_if2 = Inr []"
    unfolding elseIf_if1_def by (rule inner_link_not_analysed[THEN conjunct1])
  have b: "eligible elseIf_if2"
    by code_simp
  have c: "lint (tokenStore text_elseIf tokens_elseIf) program_elseIf =
       Inr [\<lparr>d_node = Token ''Keyword'' ''else'' 61 65 1,
             d_message = ''Using 'else' is unnecessary here.'',
             d_fix = Some \<lparr>r_start = 61, r_end = 79, r_text = '' return t; ''\<rparr>\<rparr>]"
    by code_simp
  from a b c show ?thesis by blast
qed

text \<open>
  Claim C7. The chain walk follows the \<^verbatim>\<open>alternate\<close> pointers from a conditional and
  collects the consequents in order; it stops without a result as soon as a conditional
  of the chain has no \<^verbatim>\<open>alternate\<close>, and otherwise ends with the consequents of the
  chain and its final else. A chain that ends in a plain \<^verbatim>\<open>if\<close> therefore never yields
  a diagnostic, for every tree, parent and source-code object.
\<close>

theorem plain_if_chain_no_report:
  "chainWalk [] None (IfStatement s e t c a) =
       (if endsInPlainIf (IfStatement s e t c a) then None
        else Some (chainConsequents (IfStatement s e t c a), finalElse (IfStatement s e t c a)))
   \<and> (endsInPlainIf node \<longrightarrow> chainWalk [] None node = None)
   \<and> (endsInPlainIf node \<longrightarrow> IfStatement_exit sc (Some (parent, k)) node = Inr [])"
proof (intro conjI impI)
  show "chainWalk [] None (IfStatement s e t c a) =
       (if endsInPlainIf (IfStatement s e t c a) then None
        else Some (chainConsequents (IfStatement s e t c a), finalElse (IfStatement s e t c a)))"
    by (simp add: chainWalk_eq)
next
  assume p: "endsInPlainIf node"
  then have i: "isIfStatement node" by (cases node) simp_all
  with p show w: "chainWalk [] None node = None"
    by (simp add: chainWalk_eq)
  then show "IfStatement_exit sc (Some (parent, k)) node = Inr []"
    by (simp add: IfStatement_exit_def)
qed

theorem plain_if_chain_no_report_witness:
  "endsInPlainIf plainIf_if1
   \<and> chainWalk [] None plainIf_if1 = None
   \<and> IfStatement_exit (tokenStore text_plainIf tokens_plainIf)
        (Some (BlockStatement 12 62 [plainIf_if1], Body)) plainIf_if1 = Inr []
   \<and> lint (tokenStore text_plainIf tokens_plainIf) program_plainIf = Inr []"
proof -
  have p: "endsInPlainIf plainIf_if1"
    by code_simp
  have l: "lint (tokenStore text_plainIf tokens_plainIf) program_plainIf = Inr []"
    by code_simp
  from plain_if_chain_no_report[THEN conjunct2, THEN conjunct1, rule_format, OF p]
    plain_if_chain_no_report[THEN conjunct2, THEN conjunct2, rule_format, OF p] p l
  show ?thesis by blast
qed

lemma visits_parent:
  "(None, n') \<in> set (visits anc n) \<Longrightarrow> anc = None \<and> n' = n"
  by (induction anc n rule: visits.induct) (fastforce split: option.splits)+

lemma runListeners_completes:
  assumes "\<And>anc n. (anc, n) \<in> set vs \<Longrightarrow> isIfStatement n \<Longrightarrow> anc \<noteq> None"
    and "\<And>anc n. (anc, n) \<in> set vs \<Longrightarrow> isIfStatement n \<Longrightarrow> \<not> isInnerLink anc \<Longrightarrow>
           eligible n \<Longrightarrow> \<exists>d. displayReport sc (finalElse n) = Inr d"
  shows "\<exists>ds. runListeners sc vs = Inr ds"
  using assms
proof (induction vs)
  case Nil
  show ?case by simp
next
  case (Cons v vs)
  obtain anc n where v: "v = (anc, n)" by (cases v)
  from Cons obtain ds2 where r: "runListeners sc vs = Inr ds2"
    by (meson list.set_intros(2))
  have "\<exists>ds1. (if isIfStatement n then IfStatement_exit sc anc n else Inr []) = Inr ds1"
  proof (cases "isIfStatement n")
    case False
    then show ?thesis by simp
  next
    case True
    then obtain s e t c a where n: "n = IfStatement s e t c a" by (cases n) auto
    from Cons.prems(1)[of anc n] v True obtain parent k where anc: "anc = Some (parent, k)"
      by (cases anc) auto
    show ?thesis
    proof (cases "\<not> isInnerLink anc \<and> eligible n")
      case False
      with True anc n show ?thesis
        by (auto simp: IfStatement_exit_eq isInnerLink_def)
    next
      case h: True
      with Cons.prems(2)[of anc n] v True obtain d where
        "displayReport sc (finalElse n) = Inr d" by auto
      with h True anc n show ?thesis
        by (auto simp: IfStatement_exit_eq isInnerLink_def)
    qed
  qed
  with r v show ?case by auto
qed

lemma lint_completes:
  assumes "\<not> isIfStatement root"
    and "\<And>h. h \<in> set (filter eligible (chainHeads root)) \<Longrightarrow>
           \<exists>d. displayReport sc (finalElse h) = Inr d"
  shows "\<exists>ds. lint sc root = Inr ds"
  unfolding lint_def
proof (rule runListeners_completes)
  fix anc n
  assume v: "(anc, n) \<in> set (visits None root)" and i: "isIfStatement n"
  show "anc \<noteq> None"
  proof
    assume "anc = None"
    with visits_parent[of n None root] v have "n = root" by simp
    with i assms(1) show False by simp
  qed
  assume "\<not> isInnerLink anc" and "eligible n"
  with v i have "n \<in> set (filter eligible (chainHeads root))"
    by (force simp: chainHeads_def)
  then show "\<exists>d. displayReport sc (finalElse n) = Inr d"
    by (rule assms(2))
qed


text \<open>
  Claim C8 (as the spec states it, refuted). With eligibility as the spec words it (a
  final else, and every consequent terminating by the test of section 4.1) the count of
  diagnostics is not the count of eligible chains: the program
  \<^verbatim>\<open>function f(){ if (x) { return y; foo(); } else { bar(); } }\<close> has no eligible chain
  and gets one diagnostic, and the program
  \<^verbatim>\<open>function f(){ if (a) if (b) { if (c) return 1; else return 2; } else return 3; else g(); }\<close>
  has three eligible chains and gets two diagnostics.
\<close>

theorem count_spec_eligible_counterexample:
  "filter spec_eligible (chainHeads program_jumpFirst) = []
   \<and> map_sum id length (lint (tokenStore text_jumpFirst tokens_jumpFirst) program_jumpFirst)
       = Inr 1
   \<and> filter spec_eligible (chainHeads program_deepIf) = [deepIf_if3, deepIf_if2, deepIf_if1]
   \<and> map_sum id length (lint (tokenStore text_deepIf tokens_deepIf) program_deepIf)
       = Inr 2"
  by code_simp

text \<open>
  Claim C8, amended. The number of diagnostics the pass emits is the number of chains of
  the tree that are eligible by the rule's own classifier, a chain being counted at its
  outermost conditional: it has a final else, and each consequent along it passes the
  single-statement test or is a block one of whose statements does, where a statement
  passes iff it is a jump statement, or a conditional with an alternate that is not a
  conditional such that alternate and consequent each are a jump statement or a block
  ending in one. Nested chains are counted each on their own. This holds whenever the
  pass completes, and the pass does complete when the root is no conditional and the
  reporter answers for the final else of every eligible chain. On
  \<^verbatim>\<open>function f(){ if (x) { if (y) { return y; } else { return x; } } else { return z; } }\<close>
  the pass emits exactly two diagnostics, the inner chain's first and then the outer
  chain's, and these two chains are the eligible ones.
\<close>

theorem diagnostics_count_eligible_chains:
  "(lint sc root = Inr ds \<longrightarrow> length ds = length (filter eligible (chainHeads root)))
   \<and> (\<not> isIfStatement root
        \<and> (\<forall>h \<in> set (filter eligible (chainHeads root)).
              \<exists>d. displayReport sc (finalElse h) = Inr d)
       \<longrightarrow> (\<exists>ds'. lint sc root = Inr ds'
              \<and> length ds' = length (filter eligible (chainHeads root))))
   \<and> lint (tokenStore text_scenario5 tokens_scenario5) program_scenario5 =
       Inr [\<lparr>d_node = Token ''Keyword'' ''else'' 44 48 1,
             d_message = ''Using 'else' is unnecessary here.'',
             d_fix = Some \<lparr>r_start = 44, r_end = 62, r_text = '' return x; ''\<rparr>\<rparr>,
            \<lparr>d_node = Token ''Keyword'' ''else'' 65 69 1,
             d_message = ''Using 'else' is unnecessary here.'',
             d_fix = Some \<lparr>r_start = 65, r_end = 83, r_text = '' return z; ''\<rparr>\<rparr>]
   \<and> filter eligible (chainHeads program_scenario5) = [scenario5_if2, scenario5_if1]"
proof (intro conjI impI)
  assume "lint sc root = Inr ds"
  then show "length ds = length (filter eligible (chainHeads root))"
    unfolding lint_def chainHeads_def by (rule runListeners_count)
next
  assume h: "\<not> isIfStatement root
        \<and> (\<forall>h \<in> set (filter eligible (chainHeads root)).
              \<exists>d. displayReport sc (finalElse h) = Inr d)"
  then obtain ds' where l: "lint sc root = Inr ds'"
    using lint_completes[of root sc] by blast
  then have "length ds' = length (filter eligible (chainHeads root))"
    unfolding lint_def chainHeads_def by (rule runListeners_count)
  with l show "\<exists>ds'. lint sc root = Inr ds'
              \<and> length ds' = length (filter eligible (chainHeads root))"
    by blast
next
  show "lint (tokenStore text_scenario5 tokens_scenario5) program_scenario5 =
       Inr [\<lparr>d_node = Token ''Keyword'' ''else'' 44 48 1,
             d_message = ''Using 'else' is unnecessary here.'',
             d_fix = Some \<lparr>r_start = 44, r_end = 62, r_text = '' return x; ''\<rparr>\<rparr>,
            \<lparr>d_node = Token ''Keyword'' ''else'' 65 69 1,
             d_message = ''Using 'else' is unnecessary here.'',
             d_fix = Some \<lparr>r_start = 65, r_end = 83, r_text = '' return z; ''\<rparr>\<rparr>]"
    by code_simp
  show "filter eligible (chainHeads program_scenario5) = [scenario5_if2, scenario5_if1]"
    by code_simp
qed

theorem diagnostics_count_eligible_chains_witness:
  "\<not> isIfStatement program_scenario5
   \<and> displayReport (tokenStore text_scenario5 tokens_scenario5) (finalElse scenario5_if2)
       = Inr \<lparr>d_node = Token ''Keyword'' ''else'' 44 48 1,
              d_message = ''Using 'else' is unnecessary here.'',
              d_fix = Some \<lparr>r_start = 44, r_end = 62, r_text = '' return x; ''\<rparr>\<rparr>
   \<and> displayReport (tokenStore text_scenario5 tokens_scenario5) (finalElse scenario5_if1)
       = Inr \<lparr>d_node = Token ''Keyword'' ''else'' 65 69 1,
              d_message = ''Using 'else' is unnecessary here.'',
              d_fix = Some \<lparr>r_start = 65, r_end = 83, r_text = '' return z; ''\<rparr>\<rparr>
   \<and> (\<exists>ds'. lint (tokenStore text_scenario5 tokens_scenario5) program_scenario5 = Inr ds'
          \<and> length ds' = 2)"
proof -
  let ?sc = "tokenStore text_scenario5 tokens_scenario5"
  have r: "\<not> isIfStatement program_scenario5"
    by code_simp
  have d2: "displayReport ?sc (finalElse scenario5_if2)
       = Inr \<lparr>d_node = Token ''Keyword'' ''else'' 44 48 1,
              d_message = ''Using 'else' is unnecessary here.'',
              d_fix = Some \<lparr>r_start = 44, r_end = 62, r_text = '' return x; ''\<rparr>\<rparr>"
    by code_simp
  have d1: "displayReport ?sc (finalElse scenario5_if1)
       = Inr \<lparr>d_node = Token ''Keyword'' ''else'' 65 69 1,
              d_message = ''Using 'else' is unnecessary here.'',
              d_fix = Some \<lparr>r_start = 65, r_end = 83, r_text = '' return z; ''\<rparr>\<rparr>"
    by code_simp
  have hs: "filter eligible (chainHeads program_scenario5) = [scenario5_if2, scenario5_if1]"
    by code_simp
  have "\<forall>h \<in> set (filter eligible (chainHeads program_scenario5)).
          \<exists>d. displayReport ?sc (finalElse h) = Inr d"
    unfolding hs using d1 d2 by simp
  with r diagnostics_count_eligible_chains[THEN conjunct2, THEN conjunct1, rule_format,
      of program_scenario5 ?sc]
  have "\<exists>ds'. lint ?sc program_scenario5 = Inr ds'
      \<and> length ds' = length (filter eligible (chainHeads program_scenario5))"
    by blast
  then have "\<exists>ds'. lint ?sc program_scenario5 = Inr ds' \<and> length ds' = 2"
    unfolding hs by (simp add: numeral_2_eq_2)
  with r d1 d2 show ?thesis by blast
qed

text \<open>
  Claim C9. The classifier never raises: on every node each of its functions returns a
  truth value, also on an empty block (not terminating) and on a conditional whose
  alternate is a node of a kind the rule does not know (not terminating). The analyzer
  never raises either: called on a conditional that has a parent, the listener returns
  without a report, or else returns what the reporter returns for the final else of the
  chain, so that the only reads that can fail are the reporter's token queries.
\<close>

theorem classifier_and_analyzer_total:
  "(\<exists>b. checkForControlJump (Some n) = Inr b)
   \<and> (\<exists>b. naiveHasControlJump (Some n) = Inr b)
   \<and> (\<exists>b. hasElse (Some n) = Inr b)
   \<and> (\<exists>b. checkForIf (Some n) = Inr b)
   \<and> (\<exists>b. checkForControlJumpOrIf (Some n) = Inr b)
   \<and> (\<exists>b. alwaysHasControlFlow (Some n) = Inr b)
   \<and> naiveHasControlJump (Some (BlockStatement s e [])) = Inr False
   \<and> alwaysHasControlFlow (Some (BlockStatement s e [])) = Inr False
   \<and> alwaysHasControlFlow (Some (IfStatement s e t c (Some (OtherNode s' e' cs)))) = Inr False
   \<and> (chainWalk [] None (IfStatement s e t c a) = None
        \<or> (\<exists>alt. chainWalk [] None (IfStatement s e t c a)
                   = Some (chainConsequents (IfStatement s e t c a), Some alt)))
   \<and> (IfStatement_exit sc (Some (parent, k)) (IfStatement s e t c a) = Inr []
        \<or> (\<exists>alt. finalElse (IfStatement s e t c a) = Some alt
              \<and> IfStatement_exit sc (Some (parent, k)) (IfStatement s e t c a)
                  = bindE (displayReport sc (Some alt)) (\<lambda>d. Inr [d])))"
proof -
  have fe: "\<not> endsInPlainIf m \<Longrightarrow> isIfStatement m \<Longrightarrow> \<exists>alt. finalElse m = Some alt" for m
    by (induction m rule: finalElse.induct) auto
  have hasElse_total: "\<exists>b. hasElse (Some n) = Inr b"
    by (cases n; cases "alternate n") (auto simp: hasElse_def)
  have checkForIf_total: "\<exists>b. checkForIf (Some n) = Inr b"
    by (cases n) (auto simp: checkForIf_If checkForIf_nonIf)
  have walk: "chainWalk [] None (IfStatement s e t c a) = None
        \<or> (\<exists>alt. chainWalk [] None (IfStatement s e t c a)
                   = Some (chainConsequents (IfStatement s e t c a), Some alt))"
    using fe[of "IfStatement s e t c a"] by (auto simp: chainWalk_eq)
  have exit: "IfStatement_exit sc (Some (parent, k)) (IfStatement s e t c a) = Inr []
        \<or> (\<exists>alt. finalElse (IfStatement s e t c a) = Some alt
              \<and> IfStatement_exit sc (Some (parent, k)) (IfStatement s e t c a)
                  = bindE (displayReport sc (Some alt)) (\<lambda>d. Inr [d]))"
    using fe[of "IfStatement s e t c a"]
    by (auto simp: IfStatement_exit_eq eligible_def)
  have other: "alwaysHasControlFlow (Some (IfStatement s e t c (Some (OtherNode s' e' cs))))
      = Inr False"
    by (simp add: always_nonblock single_If naive_nonblock)
  show ?thesis
    using naive_total single_total always_total hasElse_total checkForIf_total walk exit other
    by (simp add: naive_block always_block)
qed


theorem classifier_and_analyzer_total_witness:
  "emptyBlocks_then2 = BlockStatement 16 18 []
   \<and> naiveHasControlJump (Some emptyBlocks_then2) = Inr False
   \<and> alwaysHasControlFlow (Some emptyBlocks_then2) = Inr False
   \<and> lint (tokenStore text_emptyBlocks tokens_emptyBlocks) program_emptyBlocks = Inr []"
proof -
  have l: "lint (tokenStore text_emptyBlocks tokens_emptyBlocks) program_emptyBlocks = Inr []"
    by code_simp
  from classifier_and_analyzer_total[of _ 16 18]
  have "naiveHasControlJump (Some (BlockStatement 16 18 [])) = Inr False"
    and "alwaysHasControlFlow (Some (BlockStatement 16 18 [])) = Inr False"
    by blast+
  with l show ?thesis by (simp add: emptyBlocks_then2_def)
qed

end
